theory Spec2Isabelle
  imports Main "HOL-Library.Multiset" "HOL-Library.List_Lexorder" "HOL-Library.Char_ord"
begin

section \<open>JavaScript values and objects\<close>

text \<open>
  Candidates, timeline events and request bodies are plain JavaScript objects.  A value is
  one of the JSON shapes; an object is a finite map from property names to values, and a
  property that is absent reads as \<open>undefined\<close>, which is \<open>None\<close> here.  Numbers are the
  integers the code produces (\<open>Date.now()\<close>).
\<close>

datatype jsval =
    JNull
  | JBool bool
  | JNum int
  | JStr string
  | JArr "jsval list"
  | JObj "(string \<times> jsval) list"

type_synonym obj = "string \<rightharpoonup> jsval"

text \<open>Truthiness of a property read (\<open>x.stage && ...\<close>, \<open>!x\<close>).\<close>

fun truthy :: "jsval option \<Rightarrow> bool" where
  "truthy None = False"
| "truthy (Some JNull) = False"
| "truthy (Some (JBool b)) = b"
| "truthy (Some (JNum n)) = (n \<noteq> 0)"
| "truthy (Some (JStr s)) = (s \<noteq> [])"
| "truthy (Some (JArr xs)) = True"
| "truthy (Some (JObj kvs)) = True"

text \<open>
  \<open>a === b\<close> on two property reads.  Primitives compare by value; an array or an object
  is compared by reference, and the two operands of every comparison in the code below
  come from different places (a request body and a stored record, a cached record and an
  identifier), so they are never the same reference.
\<close>

fun strict_eq :: "jsval option \<Rightarrow> jsval option \<Rightarrow> bool" where
  "strict_eq None None = True"
| "strict_eq (Some JNull) (Some JNull) = True"
| "strict_eq (Some (JBool a)) (Some (JBool b)) = (a = b)"
| "strict_eq (Some (JNum a)) (Some (JNum b)) = (a = b)"
| "strict_eq (Some (JStr a)) (Some (JStr b)) = (a = b)"
| "strict_eq _ _ = False"

text \<open>\<open>x === s\<close> for a string \<open>s\<close>.\<close>

definition is_str :: "jsval option \<Rightarrow> string \<Rightarrow> bool" where
  "is_str x s = strict_eq x (Some (JStr s))"

text \<open>Decimal digits of a number, for template literals.\<close>

fun digits :: "nat \<Rightarrow> string" where
  "digits n = (if n < 10 then [char_of (48 + n)]
               else digits (n div 10) @ [char_of (48 + n mod 10)])"

definition num_str :: "int \<Rightarrow> string" where
  "num_str n = (if n < 0 then CHR ''-'' # digits (nat (- n)) else digits (nat n))"

fun join_with :: "string \<Rightarrow> string list \<Rightarrow> string" where
  "join_with sep [] = []"
| "join_with sep [x] = x"
| "join_with sep (x # y # ys) = x @ sep @ join_with sep (y # ys)"

text \<open>String conversion of a value inside a template literal \<open>`${v}`\<close>.\<close>

fun to_str :: "jsval \<Rightarrow> string" where
  "to_str JNull = ''null''"
| "to_str (JBool b) = (if b then ''true'' else ''false'')"
| "to_str (JNum n) = num_str n"
| "to_str (JStr s) = s"
| "to_str (JArr xs) = join_with '','' (map (\<lambda>x. if x = JNull then [] else to_str x) xs)"
| "to_str (JObj kvs) = ''[object Object]''"

definition template :: "jsval option \<Rightarrow> string" where
  "template x = (case x of None \<Rightarrow> ''undefined'' | Some v \<Rightarrow> to_str v)"

text \<open>
  An object literal \<open>{ k: x }\<close> nested inside a record, where \<open>x\<close> is a property read.
  A key whose value is \<open>undefined\<close> reads back as \<open>undefined\<close>, exactly like an absent
  key, so it is left out.
\<close>

definition field :: "string \<Rightarrow> jsval option \<Rightarrow> (string \<times> jsval) list" where
  "field k x = (case x of None \<Rightarrow> [] | Some v \<Rightarrow> [(k, v)])"


section \<open>The local document store (src/lib/db.js)\<close>

text \<open>
  Two of the Dexie tables matter here, \<open>candidates\<close> and \<open>timeline\<close>; both are declared
  with the inbound primary key \<open>id\<close>, not generated by the store.  A table is the list of
  its records: \<open>candidates\<close> in the order of the keys, which is the order \<open>toArray\<close>
  returns, \<open>timeline\<close> in the order of insertion, so that appended events can be counted.
  Every call issued against the store is logged, whatever its outcome.
\<close>

datatype store_op = OpOpen | OpGet | OpUpdate | OpAdd | OpCount | OpToArray | OpBulkAdd

datatype db_call =
    DbOpen
  | CandidatesGet string
  | CandidatesUpdate string
  | CandidatesCount
  | CandidatesToArray
  | CandidatesBulkAdd nat
  | TimelineAdd

record db =
  rows :: "obj list"
  timeline :: "obj list"
  calls :: "db_call list"

text \<open>The candidate stored under a key: the record whose \<open>id\<close> is that string.\<close>

definition candidates :: "db \<Rightarrow> string \<Rightarrow> obj option" where
  "candidates d key = List.find (\<lambda>c. is_str (c ''id'') key) (rows d)"

datatype error = Error (message: string)

text \<open>
  What the code cannot decide is an input of the run: whether the simulated network
  raises (\<open>Math.random() < 0.075\<close>), whether the backing store rejects an operation (and
  with which message), the clock, the random identifier, and the random properties of
  generated candidates (by draw and by index).
\<close>

record env =
  netError :: bool
  rejects :: "store_op \<Rightarrow> string option"
  isoNow :: "nat \<Rightarrow> string"
  msNow :: int
  randomUUID :: string
  mockFields :: "nat \<Rightarrow> nat \<Rightarrow> obj"

text \<open>\<open>db.open()\<close>.\<close>

definition db_open :: "env \<Rightarrow> db \<Rightarrow> (error + unit) \<times> db" where
  "db_open e d =
     (let d1 = d\<lparr>calls := calls d @ [DbOpen]\<rparr> in
      case rejects e OpOpen of
        Some msg \<Rightarrow> (Inl (Error msg), d1)
      | None \<Rightarrow> (Inr (), d1))"

text \<open>\<open>db.candidates.get(id)\<close>: the record, or \<open>undefined\<close>.\<close>

definition db_candidates_get :: "env \<Rightarrow> string \<Rightarrow> db \<Rightarrow> (error + obj option) \<times> db" where
  "db_candidates_get e key d =
     (let d1 = d\<lparr>calls := calls d @ [CandidatesGet key]\<rparr> in
      case rejects e OpGet of
        Some msg \<Rightarrow> (Inl (Error msg), d1)
      | None \<Rightarrow> (Inr (candidates d key), d1))"

text \<open>
  \<open>db.candidates.update(id, changes)\<close>: the given properties are written over the record
  stored under the key; a key that is not in the table changes nothing and is not an
  error.  The callers discard the returned count.  Changes that carry another \<open>id\<close> are
  written like any other property.
\<close>

definition db_candidates_update :: "env \<Rightarrow> string \<Rightarrow> obj \<Rightarrow> db \<Rightarrow> (error + unit) \<times> db" where
  "db_candidates_update e key changes d =
     (let d1 = d\<lparr>calls := calls d @ [CandidatesUpdate key]\<rparr> in
      case rejects e OpUpdate of
        Some msg \<Rightarrow> (Inl (Error msg), d1)
      | None \<Rightarrow>
          (Inr (), d1\<lparr>rows := map (\<lambda>c. if is_str (c ''id'') key then c ++ changes else c)
                                   (rows d)\<rparr>))"

text \<open>\<open>db.candidates.count()\<close> and \<open>db.candidates.toArray()\<close>.\<close>

definition db_candidates_count :: "env \<Rightarrow> db \<Rightarrow> (error + nat) \<times> db" where
  "db_candidates_count e d =
     (let d1 = d\<lparr>calls := calls d @ [CandidatesCount]\<rparr> in
      case rejects e OpCount of
        Some msg \<Rightarrow> (Inl (Error msg), d1)
      | None \<Rightarrow> (Inr (length (rows d)), d1))"

definition db_candidates_toArray :: "env \<Rightarrow> db \<Rightarrow> (error + obj list) \<times> db" where
  "db_candidates_toArray e d =
     (let d1 = d\<lparr>calls := calls d @ [CandidatesToArray]\<rparr> in
      case rejects e OpToArray of
        Some msg \<Rightarrow> (Inl (Error msg), d1)
      | None \<Rightarrow> (Inr (rows d), d1))"

text \<open>
  A value the store accepts as a key: a number, a string, or an array of keys.  The
  message of an error the store raises by itself is the browser's; the name of the error
  stands for it.
\<close>

fun valid_key :: "jsval \<Rightarrow> bool" where
  "valid_key (JNum n) = True"
| "valid_key (JStr s) = True"
| "valid_key (JArr xs) = list_all valid_key xs"
| "valid_key JNull = False"
| "valid_key (JBool b) = False"
| "valid_key (JObj kvs) = False"

definition has_key :: "obj \<Rightarrow> bool" where
  "has_key c = (case c ''id'' of None \<Rightarrow> False | Some key \<Rightarrow> valid_key key)"

text \<open>The key of a stored candidate, as a string.\<close>

definition id_str :: "obj \<Rightarrow> string" where
  "id_str c = (case c ''id'' of Some (JStr s) \<Rightarrow> s | _ \<Rightarrow> [])"

text \<open>
  \<open>db.candidates.bulkAdd(items)\<close>: every item needs a key of its own that is not in the
  table yet; the table stays in key order.  The only call adds generated candidates,
  whose keys are strings.
\<close>

definition db_candidates_bulkAdd :: "env \<Rightarrow> obj list \<Rightarrow> db \<Rightarrow> (error + unit) \<times> db" where
  "db_candidates_bulkAdd e items d =
     (let d1 = d\<lparr>calls := calls d @ [CandidatesBulkAdd (length items)]\<rparr> in
      case rejects e OpBulkAdd of
        Some msg \<Rightarrow> (Inl (Error msg), d1)
      | None \<Rightarrow>
          if list_all has_key items
          then if distinct (map (\<lambda>c. c ''id'') (rows d @ items))
               then (Inr (), d1\<lparr>rows := sort_key id_str (rows d @ items)\<rparr>)
               else (Inl (Error ''BulkError''), d1)
          else (Inl (Error ''DataError''), d1))"

text \<open>
  \<open>db.timeline.add(event)\<close>: the store rejects a record without a key (\<open>DataError\<close>) and a
  record whose key is in the table already (\<open>ConstraintError\<close>).
\<close>

definition db_timeline_add :: "env \<Rightarrow> obj \<Rightarrow> db \<Rightarrow> (error + unit) \<times> db" where
  "db_timeline_add e ev d =
     (let d1 = d\<lparr>calls := calls d @ [TimelineAdd]\<rparr> in
      case rejects e OpAdd of
        Some msg \<Rightarrow> (Inl (Error msg), d1)
      | None \<Rightarrow>
          if has_key ev
          then if list_ex (\<lambda>x. x ''id'' = ev ''id'') (timeline d)
               then (Inl (Error ''ConstraintError''), d1)
               else (Inr (), d1\<lparr>timeline := timeline d @ [ev]\<rparr>)
          else (Inl (Error ''DataError''), d1))"


section \<open>The mocked HTTP API (src/mocks/handlers.js)\<close>

datatype response = Response (status: nat) (body: obj)

text \<open>\<open>simulateNetwork(isWrite)\<close>; the latency is not modelled.\<close>

definition simulateNetwork :: "env \<Rightarrow> bool \<Rightarrow> error + unit" where
  "simulateNetwork e isWrite =
     (if isWrite \<and> netError e then Inl (Error ''Simulated network error'') else Inr ())"

definition handleError :: "error \<Rightarrow> response" where
  "handleError err =
     Response 500 [''error'' \<mapsto>
       JStr (if message err \<noteq> [] then message err else ''Internal Server Error'')]"

text \<open>
  The body of a request: text that does not parse as JSON, on which \<open>request.json()\<close>
  rejects with the parser's message, or the value it parses to.
\<close>

datatype request_body = Malformed string | Json jsval

definition request_json :: "request_body \<Rightarrow> error + jsval" where
  "request_json b = (case b of Malformed msg \<Rightarrow> Inl (Error msg) | Json v \<Rightarrow> Inr v)"

text \<open>
  \<open>{ ...v }\<close>: the own properties a value contributes to an object literal.  An object
  gives its properties (the keys of a parsed object are distinct), an array and a string
  their elements under the decimal indices, anything else nothing.
\<close>

fun spread :: "jsval \<Rightarrow> obj" where
  "spread (JObj kvs) = map_of kvs"
| "spread (JArr xs) = map_of (zip (map digits [0..<length xs]) xs)"
| "spread (JStr s) = map_of (zip (map digits [0..<length s]) (map (\<lambda>c. JStr [c]) s))"
| "spread JNull = Map.empty"
| "spread (JBool b) = Map.empty"
| "spread (JNum n) = Map.empty"

text \<open>
  \<open>v.stage\<close> on a parsed body: reading a property of \<open>null\<close> raises; an object gives the
  property; no other value has a property of that name.
\<close>

definition read_stage :: "jsval \<Rightarrow> error + jsval option" where
  "read_stage v =
     (case v of
        JNull \<Rightarrow> Inl (Error ''Cannot read properties of null (reading stage)'')
      | JObj kvs \<Rightarrow> Inr (map_of kvs ''stage'')
      | _ \<Rightarrow> Inr None)"

text \<open>
  The timeline record the first \<open>PATCH /candidates/:id\<close> handler writes; \<open>updates\<close> are
  the properties of the parsed body.
\<close>

definition patch_event :: "env \<Rightarrow> string \<Rightarrow> obj \<Rightarrow> obj \<Rightarrow> obj" where
  "patch_event e cid candidate updates =
     [''id'' \<mapsto> JStr (randomUUID e),
      ''candidateId'' \<mapsto> JStr cid,
      ''type'' \<mapsto> JStr ''stage_change'',
      ''title'' \<mapsto> JStr (''Moved to '' @ template (updates ''stage'') @ '' stage''),
      ''description'' \<mapsto> JStr (''Candidate moved from '' @ template (candidate ''stage'')
                                   @ '' to '' @ template (updates ''stage'')),
      ''timestamp'' \<mapsto> JStr (isoNow e 1),
      ''metadata'' \<mapsto> JObj (field ''from'' (candidate ''stage'') @ field ''to'' (updates ''stage''))]"

text \<open>\<open>updates.stage && updates.stage !== candidate.stage\<close>.\<close>

definition stage_changed :: "obj \<Rightarrow> obj \<Rightarrow> bool" where
  "stage_changed updates candidate =
     (truthy (updates ''stage'') \<and> \<not> strict_eq (updates ''stage'') (candidate ''stage''))"

text \<open>
  \<open>http.patch(`${API_BASE}/candidates/:id`, ...)\<close>, the first handler registered for the
  route: the simulated network, the parsing of the body, the lookup, then the writes.
  The whole body runs inside \<open>try\<close>; whatever was written before an exception stays
  written.
\<close>

definition patch_candidate :: "env \<Rightarrow> string \<Rightarrow> request_body \<Rightarrow> db \<Rightarrow> response \<times> db" where
  "patch_candidate e cid request d =
     (case simulateNetwork e True of
        Inl err \<Rightarrow> (handleError err, d)
      | Inr _ \<Rightarrow>
          (case request_json request of
             Inl err \<Rightarrow> (handleError err, d)
           | Inr parsed \<Rightarrow>
               (case db_candidates_get e cid d of
                  (Inl err, d1) \<Rightarrow> (handleError err, d1)
                | (Inr None, d1) \<Rightarrow>
                    (Response 404 [''error'' \<mapsto> JStr ''Candidate not found''], d1)
                | (Inr (Some candidate), d1) \<Rightarrow>
                    (let updates = spread parsed;
                         updatedCandidate =
                           (candidate ++ updates)(''updatedAt'' \<mapsto> JStr (isoNow e 0))
                     in case read_stage parsed of
                          Inl err \<Rightarrow> (handleError err, d1)
                        | Inr stage \<Rightarrow>
                            (case (if stage_changed updates candidate
                                   then db_timeline_add e (patch_event e cid candidate updates) d1
                                   else (Inr (), d1)) of
                               (Inl err, d2) \<Rightarrow> (handleError err, d2)
                             | (Inr _, d2) \<Rightarrow>
                                 (case db_candidates_update e cid updatedCandidate d2 of
                                    (Inl err, d3) \<Rightarrow> (handleError err, d3)
                                  | (Inr _, d3) \<Rightarrow> (Response 200 updatedCandidate, d3)))))))"



section \<open>The stage registry\<close>

text \<open>\<open>STAGES\<close> of src/components/candidates/CandidatesKanban.jsx.\<close>

record stage_entry =
  stage_value :: string
  stage_label :: string
  stage_color :: string

definition STAGES :: "stage_entry list" where
  "STAGES =
    [\<lparr>stage_value = ''applied'', stage_label = ''Applied'', stage_color = ''bg-blue-100 text-blue-800''\<rparr>,
     \<lparr>stage_value = ''screen'', stage_label = ''Screening'', stage_color = ''bg-purple-100 text-purple-800''\<rparr>,
     \<lparr>stage_value = ''tech'', stage_label = ''Technical'', stage_color = ''bg-amber-100 text-amber-800''\<rparr>,
     \<lparr>stage_value = ''offer'', stage_label = ''Offer'', stage_color = ''bg-green-100 text-green-800''\<rparr>,
     \<lparr>stage_value = ''hired'', stage_label = ''Hired'', stage_color = ''bg-emerald-100 text-emerald-800''\<rparr>,
     \<lparr>stage_value = ''rejected'', stage_label = ''Rejected'', stage_color = ''bg-red-100 text-red-800''\<rparr>]"

text \<open>The local \<open>stages\<close> of \<open>generateMockCandidates\<close> in the same file.\<close>

definition mock_stages :: "string list" where
  "mock_stages = [''applied'', ''screen'', ''tech'', ''offer'', ''hired'', ''rejected'']"

text \<open>
  \<open>STAGES\<close> of the board component (the second module of
  src/components/candidates/CandidateCard.jsx) as (id, name, color).
\<close>

definition board_STAGES :: "(string \<times> string \<times> string) list" where
  "board_STAGES =
    [(''applied'', ''Applied'', ''bg-blue-500''),
     (''screen'', ''Screening'', ''bg-purple-500''),
     (''tech'', ''Technical'', ''bg-amber-500''),
     (''offer'', ''Offer'', ''bg-green-500''),
     (''hired'', ''Hired'', ''bg-emerald-500''),
     (''rejected'', ''Rejected'', ''bg-red-500'')]"

text \<open>\<open>STAGES\<close> of src/pages/CandidateDetail.jsx as (id, name, color); the icon is left out.\<close>

definition detail_STAGES :: "(string \<times> string \<times> string) list" where
  "detail_STAGES =
    [(''applied'', ''Applied'', ''bg-blue-100 text-blue-800''),
     (''screen'', ''Screening'', ''bg-purple-100 text-purple-800''),
     (''tech'', ''Technical'', ''bg-amber-100 text-amber-800''),
     (''offer'', ''Offer'', ''bg-green-100 text-green-800''),
     (''hired'', ''Hired'', ''bg-emerald-100 text-emerald-800''),
     (''rejected'', ''Rejected'', ''bg-red-100 text-red-800'')]"

text \<open>\<open>STAGES\<close> of src/lib/seed-data.js and of src/mocks/seed-data.js.\<close>

definition lib_seed_STAGES :: "string list" where
  "lib_seed_STAGES = [''applied'', ''screen'', ''tech'', ''offer'', ''hired'', ''rejected'']"

definition mocks_seed_STAGES :: "string list" where
  "mocks_seed_STAGES = [''applied'', ''screen'', ''tech'', ''offer'', ''hired'', ''rejected'']"

text \<open>
  \<open>STAGE_TITLES\<close> of the column component (src/unnamed/part_001) and \<open>STAGE_LABELS\<close> of
  src/components/candidates/CandidatesList.jsx: object literals, whose keys enumerate in
  the order written.
\<close>

definition STAGE_TITLES :: "(string \<times> string) list" where
  "STAGE_TITLES =
    [(''applied'', ''Applied''), (''screen'', ''Screening''), (''tech'', ''Technical''),
     (''offer'', ''Offer''), (''hired'', ''Hired''), (''rejected'', ''Rejected'')]"

definition STAGE_LABELS :: "(string \<times> string) list" where
  "STAGE_LABELS =
    [(''applied'', ''Applied''), (''screen'', ''Screening''), (''tech'', ''Technical''),
     (''offer'', ''Offer''), (''hired'', ''Hired''), (''rejected'', ''Rejected'')]"

text \<open>The stage values offered by the list view's filter, after the entry \<open>all\<close>.\<close>

definition filter_items :: "(string \<times> string) list" where
  "filter_items =
    [(''applied'', ''Applied''), (''screen'', ''Screening''), (''tech'', ''Technical''),
     (''offer'', ''Offer''), (''hired'', ''Hired''), (''rejected'', ''Rejected'')]"

text \<open>The registry as the specification writes it.\<close>

definition stage_registry :: "string list" where
  "stage_registry = [''applied'', ''screen'', ''tech'', ''offer'', ''hired'', ''rejected'']"


section \<open>The Kanban component (src/components/candidates/CandidatesKanban.jsx)\<close>

text \<open>
  The state the drag handlers and the mutation work on: the cached data of the query
  \<open>['candidates-kanban', search]\<close> (\<open>None\<close> while the query has no data), the store, the
  notifications raised, the number of invalidations requested, the card being dragged and
  the page shown, and the module's flag \<open>isDbInitialized\<close>.  The component never calls
  \<open>setSearch\<close>, so \<open>search\<close> is the empty string throughout.
\<close>

record kanban =
  queryData :: "obj list option"
  store :: db
  toasts :: "(string \<times> string) list"
  invalidations :: nat
  activeId :: "string option"
  page :: nat
  isDbInitialized :: bool

definition pageSize :: nat where
  "pageSize = 50"

text \<open>\<open>const { data: filteredCandidates = [] } = useQuery(...)\<close>.\<close>

definition filteredCandidates :: "kanban \<Rightarrow> obj list" where
  "filteredCandidates k = (case queryData k of None \<Rightarrow> [] | Some xs \<Rightarrow> xs)"

text \<open>
  \<open>filteredCandidates.slice(start, start + pageSize)\<close> with \<open>start = (page - 1) * pageSize\<close>.
  The page never goes below 1; at 0 the slice would run from 50 before the end up to
  index 0, which is empty.
\<close>

definition paginatedCandidates :: "kanban \<Rightarrow> obj list" where
  "paginatedCandidates k =
     (if page k = 0 then []
      else take pageSize (drop ((page k - 1) * pageSize) (filteredCandidates k)))"

text \<open>
  The grouping: \<open>STAGES.reduce\<close> fills one key per stage with the candidates whose stage is
  that value, then \<open>STAGES.forEach\<close> gives an empty list to every key still falsy.
\<close>

definition group_reduce :: "obj list \<Rightarrow> (string \<rightharpoonup> obj list)" where
  "group_reduce cs =
     fold (\<lambda>stage acc. acc(stage_value stage \<mapsto>
                           filter (\<lambda>c. is_str (c ''stage'') (stage_value stage)) cs))
          STAGES Map.empty"

definition candidatesByStage :: "obj list \<Rightarrow> (string \<rightharpoonup> obj list)" where
  "candidatesByStage cs =
     fold (\<lambda>stage grouped. if grouped (stage_value stage) = None
                             then grouped(stage_value stage \<mapsto> []) else grouped)
          STAGES (group_reduce cs)"

text \<open>
  The columns as rendered, left to right: \<open>candidatesByStage[stage.value] || []\<close> for each
  stage of \<open>STAGES\<close>.
\<close>

definition columns :: "obj list \<Rightarrow> obj list list" where
  "columns cs =
     map (\<lambda>stage. case candidatesByStage cs (stage_value stage) of
                     None \<Rightarrow> [] | Some stageCandidates \<Rightarrow> stageCandidates) STAGES"

text \<open>The optimistic rewrite of the cached list, used by \<open>onMutate\<close> and by \<open>mutationFn\<close>.\<close>

definition set_stage :: "string \<Rightarrow> string \<Rightarrow> obj list \<Rightarrow> obj list" where
  "set_stage cid stage old =
     map (\<lambda>candidate. if is_str (candidate ''id'') cid
                       then candidate(''stage'' \<mapsto> JStr stage) else candidate) old"

text \<open>
  \<open>queryClient.setQueryData(key, old => old.map(...))\<close>: with no cached data \<open>old\<close> is
  \<open>undefined\<close> and the updater raises.
\<close>

definition setQueryData_stage :: "string \<Rightarrow> string \<Rightarrow> kanban \<Rightarrow> error + kanban" where
  "setQueryData_stage cid stage k =
     (case queryData k of
        None \<Rightarrow> Inl (Error ''Cannot read properties of undefined (reading map)'')
      | Some old \<Rightarrow> Inr (k\<lparr>queryData := Some (set_stage cid stage old)\<rparr>))"

text \<open>
  \<open>onMutate\<close>: snapshot, then optimistic update; the result is the context.  The
  \<open>cancelQueries\<close> before them drops the reloads in flight at that moment: such a reload
  never lands, and changes nothing here.
\<close>

definition onMutate :: "string \<times> string \<Rightarrow> kanban \<Rightarrow> (error + obj list) \<times> kanban" where
  "onMutate vars k =
     (let previousCandidates = filteredCandidates k in
      case setQueryData_stage (fst vars) (snd vars) k of
        Inl err \<Rightarrow> (Inl err, k)
      | Inr k1 \<Rightarrow> (Inr previousCandidates, k1))"

text \<open>
  \<open>mutationFn\<close>, in the two parts an \<open>await\<close> separates: up to the store call (read the
  cache, rewrite it once more), and the awaited store write with the return.
\<close>

definition mutationFn_enter :: "string \<times> string \<Rightarrow> kanban \<Rightarrow> (error + obj list) \<times> kanban" where
  "mutationFn_enter vars k =
     (let currentData = filteredCandidates k in
      case setQueryData_stage (fst vars) (snd vars) k of
        Inl err \<Rightarrow> (Inl err, k)
      | Inr k1 \<Rightarrow> (Inr currentData, k1))"

definition mutationFn_write :: "env \<Rightarrow> string \<times> string \<Rightarrow> obj list \<Rightarrow> kanban
                                 \<Rightarrow> (error + obj list) \<times> kanban" where
  "mutationFn_write e vars currentData k =
     (case db_candidates_update e (fst vars) [''stage'' \<mapsto> JStr (snd vars)] (store k) of
        (Inl err, d) \<Rightarrow> (Inl err, k\<lparr>store := d\<rparr>)
      | (Inr _, d) \<Rightarrow> (Inr currentData, k\<lparr>store := d\<rparr>))"

definition mutationFn :: "env \<Rightarrow> string \<times> string \<Rightarrow> kanban \<Rightarrow> (error + obj list) \<times> kanban" where
  "mutationFn e vars k =
     (case mutationFn_enter vars k of
        (Inl err, k1) \<Rightarrow> (Inl err, k1)
      | (Inr currentData, k1) \<Rightarrow> mutationFn_write e vars currentData k1)"

text \<open>
  \<open>onError\<close>: restore the snapshot when there is a context (an array is always truthy),
  and notify.
\<close>

definition onError :: "obj list option \<Rightarrow> kanban \<Rightarrow> kanban" where
  "onError ctx k =
     (let k1 = (case ctx of None \<Rightarrow> k
                | Some previousCandidates \<Rightarrow> k\<lparr>queryData := Some previousCandidates\<rparr>)
      in k1\<lparr>toasts := toasts k1 @ [(''Error'', ''Failed to update candidate stage'')]\<rparr>)"

text \<open>
  \<open>onSettled\<close>: \<open>invalidateQueries\<close> marks the query stale and starts a reload of it.  The
  callback does not wait for the reload; the reload lands later, as a step of its own
  (\<open>refetch\<close> below).
\<close>

definition onSettled :: "kanban \<Rightarrow> kanban" where
  "onSettled k = k\<lparr>invalidations := Suc (invalidations k)\<rparr>"

text \<open>
  \<open>generateMockCandidates(count)\<close>: the id and the email are numbered, the other
  properties are drawn at random.
\<close>

definition generateMockCandidates :: "env \<Rightarrow> nat \<Rightarrow> nat \<Rightarrow> obj list" where
  "generateMockCandidates e draw n =
     map (\<lambda>i. (mockFields e draw i)
                 (''id'' \<mapsto> JStr (''candidate-'' @ digits (i + 1)),
                  ''email'' \<mapsto> JStr (''candidate'' @ digits (i + 1) @ ''@example.com'')))
         [0..<n]"

text \<open>\<open>initializeDb\<close>: opens the store once.\<close>

definition initializeDb :: "env \<Rightarrow> kanban \<Rightarrow> (error + unit) \<times> kanban" where
  "initializeDb e k =
     (if isDbInitialized k then (Inr (), k)
      else case db_open e (store k) of
             (Inl err, d) \<Rightarrow> (Inl err, k\<lparr>store := d\<rparr>)
           | (Inr _, d) \<Rightarrow> (Inr (), k\<lparr>store := d, isDbInitialized := True\<rparr>))"

text \<open>
  The query function.  An empty table is filled with thirty generated candidates, which
  are also the result; otherwise the result is the table (\<open>search\<close> is empty, so nothing
  is filtered out).  Any exception is caught and answered with fifteen generated
  candidates that are not stored.  \<open>db.candidates\<close> always exists, so the branch for a
  missing table is never taken.
\<close>

definition queryFn :: "env \<Rightarrow> kanban \<Rightarrow> obj list \<times> kanban" where
  "queryFn e k =
     (case initializeDb e k of
        (Inl err, k1) \<Rightarrow> (generateMockCandidates e 1 15, k1)
      | (Inr _, k1) \<Rightarrow>
          (case db_candidates_count e (store k1) of
             (Inl err, d1) \<Rightarrow> (generateMockCandidates e 1 15, k1\<lparr>store := d1\<rparr>)
           | (Inr cnt, d1) \<Rightarrow>
               if cnt = 0
               then (let mockCandidates = generateMockCandidates e 0 30 in
                     case db_candidates_bulkAdd e mockCandidates d1 of
                       (Inl err, d2) \<Rightarrow> (generateMockCandidates e 1 15, k1\<lparr>store := d2\<rparr>)
                     | (Inr _, d2) \<Rightarrow> (mockCandidates, k1\<lparr>store := d2\<rparr>))
               else (case db_candidates_toArray e d1 of
                       (Inl err, d2) \<Rightarrow> (generateMockCandidates e 1 15, k1\<lparr>store := d2\<rparr>)
                     | (Inr result, d2) \<Rightarrow> (result, k1\<lparr>store := d2\<rparr>))))"

text \<open>A reload lands: the result of the query function becomes the cached data.\<close>

definition refetch :: "env \<Rightarrow> kanban \<Rightarrow> kanban" where
  "refetch e k = (case queryFn e k of (data, k1) \<Rightarrow> k1\<lparr>queryData := Some data\<rparr>)"

definition reloads :: "env list \<Rightarrow> kanban \<Rightarrow> kanban" where
  "reloads es k = fold refetch es k"

text \<open>
  The life cycle the mutation library runs for one \<open>mutateAsync\<close>: \<open>onMutate\<close>, then
  \<open>mutationFn\<close>; on an exception in either, \<open>onError\<close> with the context obtained so far;
  \<open>onSettled\<close> last.  A mutation is in flight while its store write is awaited: \<open>start\<close>
  runs it up to there, \<open>complete\<close> runs the rest once the store has answered.
\<close>

datatype inflight =
    Raised error "obj list option"
  | Pending "obj list" "obj list"

definition start :: "string \<times> string \<Rightarrow> kanban \<Rightarrow> inflight \<times> kanban" where
  "start vars k =
     (case onMutate vars k of
        (Inl err, k1) \<Rightarrow> (Raised err None, k1)
      | (Inr previousCandidates, k1) \<Rightarrow>
          (case mutationFn_enter vars k1 of
             (Inl err, k2) \<Rightarrow> (Raised err (Some previousCandidates), k2)
           | (Inr currentData, k2) \<Rightarrow> (Pending previousCandidates currentData, k2)))"

definition complete :: "env \<Rightarrow> string \<times> string \<Rightarrow> inflight \<Rightarrow> kanban
                         \<Rightarrow> (error + obj list) \<times> kanban" where
  "complete e vars m k =
     (case m of
        Raised err ctx \<Rightarrow> (Inl err, onSettled (onError ctx k))
      | Pending previousCandidates currentData \<Rightarrow>
          (case mutationFn_write e vars currentData k of
             (Inl err, k1) \<Rightarrow> (Inl err, onSettled (onError (Some previousCandidates) k1))
           | (Inr data, k1) \<Rightarrow> (Inr data, onSettled k1)))"

definition mutateAsync :: "env \<Rightarrow> string \<times> string \<Rightarrow> kanban \<Rightarrow> (error + obj list) \<times> kanban" where
  "mutateAsync e vars k = (case start vars k of (m, k1) \<Rightarrow> complete e vars m k1)"





text \<open>
  The stage a drop target stands for: the target's own id when it is a stage value,
  otherwise the first stage whose column holds a card with that id; \<open>null\<close> when none.
\<close>

definition resolve_stage :: "string \<Rightarrow> kanban \<Rightarrow> string option" where
  "resolve_stage over_id k =
     (if list_ex (\<lambda>s. stage_value s = over_id) STAGES then Some over_id
      else map_option stage_value
             (List.find (\<lambda>stage.
                case candidatesByStage (paginatedCandidates k) (stage_value stage) of
                  None \<Rightarrow> False
                | Some column \<Rightarrow> list_ex (\<lambda>c. is_str (c ''id'') over_id) column) STAGES))"

text \<open>
  \<open>handleDragEnd\<close>: \<open>over\<close> is the id of the drop target, \<open>None\<close> when the card is released
  outside every target.  The result of the awaited mutation is not used.
\<close>

definition handleDragEnd :: "env \<Rightarrow> string \<Rightarrow> string option \<Rightarrow> kanban \<Rightarrow> kanban" where
  "handleDragEnd e active_id over k =
     (let k0 = k\<lparr>activeId := None\<rparr> in
      case over of
        None \<Rightarrow> k0
      | Some over_id \<Rightarrow>
          (let candidateId = active_id;
               newStage = resolve_stage over_id k
           in case List.find (\<lambda>c. is_str (c ''id'') candidateId) (filteredCandidates k) of
                None \<Rightarrow> k0
              | Some candidate \<Rightarrow>
                  (case newStage of
                     None \<Rightarrow> k0
                   | Some stage \<Rightarrow>
                       if is_str (candidate ''stage'') stage \<or> stage = [] then k0
                       else snd (mutateAsync e (candidateId, stage) k0))))"


section \<open>The list view (src/components/candidates/CandidatesList.jsx)\<close>

text \<open>The timeline record \<open>updateCandidateStage.mutationFn\<close> of the list view writes.\<close>

definition list_event :: "env \<Rightarrow> string \<Rightarrow> string \<Rightarrow> obj" where
  "list_event e cid stage =
     [''candidateId'' \<mapsto> JStr cid,
      ''type'' \<mapsto> JStr ''status_change'',
      ''description'' \<mapsto> JStr (''Moved to '' @ stage @ '' stage''),
      ''timestamp'' \<mapsto> JNum (msNow e),
      ''userName'' \<mapsto> JStr ''System'']"

text \<open>\<open>mutationFn\<close>: the stage write, then the timeline append.\<close>

definition list_mutationFn :: "env \<Rightarrow> string \<times> string \<Rightarrow> db \<Rightarrow> (error + unit) \<times> db" where
  "list_mutationFn e vars d =
     (case db_candidates_update e (fst vars) [''stage'' \<mapsto> JStr (snd vars)] d of
        (Inl err, d1) \<Rightarrow> (Inl err, d1)
      | (Inr _, d1) \<Rightarrow> db_timeline_add e (list_event e (fst vars) (snd vars)) d1)"

text \<open>
  The list view's state: the candidates its query returned and the store.  The callbacks
  of its mutation only notify and invalidate queries; they write neither of the two.
\<close>

record listview =
  candidatesData :: "obj list"
  lstore :: db

text \<open>\<open>handleStageDrop(candidateId, newStage)\<close>; \<open>mutate\<close> runs \<open>mutationFn\<close>.\<close>

definition handleStageDrop :: "env \<Rightarrow> string \<Rightarrow> string \<Rightarrow> listview \<Rightarrow> listview" where
  "handleStageDrop e candidateId newStage v =
     (if candidateId = [] \<or> newStage = [] then v
      else case List.find (\<lambda>c. is_str (c ''id'') candidateId) (candidatesData v) of
             None \<Rightarrow> v
           | Some candidate \<Rightarrow>
               if is_str (candidate ''stage'') newStage then v
               else v\<lparr>lstore := snd (list_mutationFn e (candidateId, newStage) (lstore v))\<rparr>)"


section \<open>The board of the list view (\<open>KanbanBoard\<close>, src/components/candidates/CandidateCard.jsx)\<close>

text \<open>
  What a drop target carries: a card registers \<open>{ type: 'candidate', candidate }\<close>, a
  column \<open>{ type: 'column', stage }\<close>.
\<close>

datatype sortable_data =
    CandidateData obj
  | ColumnData "string \<times> string \<times> string"

record over_target =
  over_id :: string
  over_data :: "sortable_data option"

text \<open>\<open>over.data?.current?.stage?.id\<close>.\<close>

definition over_stage_id :: "over_target \<Rightarrow> string option" where
  "over_stage_id over =
     (case over_data over of
        Some (ColumnData stage) \<Rightarrow> Some (fst stage)
      | _ \<Rightarrow> None)"

text \<open>The board's grouping, as the entries of the object it builds.\<close>

definition board_candidatesByStage :: "obj list \<Rightarrow> (string \<times> obj list) list" where
  "board_candidatesByStage cs =
     map (\<lambda>stage. (fst stage, filter (\<lambda>c. is_str (c ''stage'') (fst stage)) cs)) board_STAGES"

text \<open>
  \<open>handleDragOver\<close> of the board, over the candidates it shows: the result is the call
  \<open>onCandidateMove(activeId, overStage)\<close> it makes, if any.
\<close>

definition board_handleDragOver :: "string \<Rightarrow> over_target option \<Rightarrow> obj list
                                     \<Rightarrow> (string \<times> string) option" where
  "board_handleDragOver active_id over shown =
     (case over of
        None \<Rightarrow> None
      | Some target \<Rightarrow>
          (let activeId = active_id;
               overId = over_id target
           in if activeId = overId then None
              else
                (let activeStage =
                       map_option fst
                         (List.find (\<lambda>entry. list_ex (\<lambda>item. is_str (item ''id'') activeId) (snd entry))
                                    (board_candidatesByStage shown));
                     overStage = (case over_stage_id target of
                                    None \<Rightarrow> overId
                                  | Some sid \<Rightarrow> if sid \<noteq> [] then sid else overId)
                 in if activeStage = Some overStage then None
                    else Some (activeId, overStage))))"

text \<open>The list view passes \<open>handleStageDrop\<close> to the board as \<open>onCandidateMove\<close>.\<close>

definition list_board_drag_over :: "env \<Rightarrow> string \<Rightarrow> over_target option \<Rightarrow> obj list
                                     \<Rightarrow> listview \<Rightarrow> listview" where
  "list_board_drag_over e active_id over shown v =
     (case board_handleDragOver active_id over shown of
        None \<Rightarrow> v
      | Some move \<Rightarrow> handleStageDrop e (fst move) (snd move) v)"


section \<open>Sample data\<close>

text \<open>The request body of a stage change, \<open>{ stage }\<close>.\<close>

definition stage_body :: "string \<Rightarrow> request_body" where
  "stage_body stage = Json (JObj [(''stage'', JStr stage)])"

text \<open>Three stored candidates, and one whose stage is outside the registry.\<close>

definition cand_a :: obj where
  "cand_a = [''id'' \<mapsto> JStr ''a'', ''name'' \<mapsto> JStr ''Ann'', ''email'' \<mapsto> JStr ''ann@example.com'',
             ''stage'' \<mapsto> JStr ''applied'', ''updatedAt'' \<mapsto> JStr ''2024-01-01T00:00:00.000Z'']"

definition cand_b :: obj where
  "cand_b = [''id'' \<mapsto> JStr ''b'', ''name'' \<mapsto> JStr ''Bob'', ''email'' \<mapsto> JStr ''bob@example.com'',
             ''stage'' \<mapsto> JStr ''tech'', ''updatedAt'' \<mapsto> JStr ''2024-01-01T00:00:00.000Z'']"

definition cand_c :: obj where
  "cand_c = [''id'' \<mapsto> JStr ''c'', ''name'' \<mapsto> JStr ''Cy'', ''email'' \<mapsto> JStr ''cy@example.com'',
             ''stage'' \<mapsto> JStr ''applied'', ''updatedAt'' \<mapsto> JStr ''2024-01-01T00:00:00.000Z'']"

definition cand_x :: obj where
  "cand_x = [''id'' \<mapsto> JStr ''x'', ''name'' \<mapsto> JStr ''Xi'', ''stage'' \<mapsto> JStr ''interview'']"

definition db0 :: db where
  "db0 = \<lparr>rows = [cand_a, cand_b, cand_c], timeline = [], calls = []\<rparr>"

text \<open>
  A run in which nothing fails, one in which the store rejects the candidate write, one
  in which it rejects the timeline append, and one in which the simulated network raises.
\<close>

definition env_ok :: env where
  "env_ok = \<lparr>netError = False, rejects = (\<lambda>op. None),
             isoNow = (\<lambda>n. ''2024-06-01T12:00:00.000Z''), msNow = 1717243200000,
             randomUUID = ''0b5c7f0e-0000-4000-8000-000000000001'',
             mockFields = (\<lambda>draw i. Map.empty)\<rparr>"

definition env_update_rejected :: env where
  "env_update_rejected =
     env_ok\<lparr>rejects := (\<lambda>op. if op = OpUpdate then Some ''QuotaExceededError'' else None)\<rparr>"

definition env_add_rejected :: env where
  "env_add_rejected =
     env_ok\<lparr>rejects := (\<lambda>op. if op = OpAdd then Some ''DataError'' else None)\<rparr>"


definition kanban0 :: kanban where
  "kanban0 = \<lparr>queryData = Some [cand_a, cand_b, cand_c], store = db0, toasts = [],
              invalidations = 0, activeId = Some ''a'', page = 1, isDbInitialized = True\<rparr>"

definition listview0 :: listview where
  "listview0 = \<lparr>candidatesData = [cand_a, cand_b, cand_c], lstore = db0\<rparr>"



text \<open>The card of \<open>cand_c\<close> as a drop target of the board.\<close>

definition card_c :: over_target where
  "card_c = \<lparr>over_id = ''c'', over_data = Some (CandidateData cand_c)\<rparr>"


section \<open>Objects and the candidates table\<close>

lemma is_str_iff: "is_str x s \<longleftrightarrow> x = Some (JStr s)"
proof (cases x)
  case None
  then show ?thesis by (simp add: is_str_def)
next
  case (Some v)
  then show ?thesis by (cases v) (simp_all add: is_str_def)
qed

lemma merge_over: "c ++ c ++ u = c ++ u" "c ++ (c ++ u) = c ++ u" "c ++ c = c"
  by (auto simp: map_add_def fun_eq_iff split: option.splits)

lemma candidates_calls [simp]: "candidates (d\<lparr>calls := cs\<rparr>) = candidates d"
  by (simp add: candidates_def fun_eq_iff)

lemma candidates_timeline [simp]: "candidates (d\<lparr>timeline := t\<rparr>) = candidates d"
  by (simp add: candidates_def fun_eq_iff)

lemma candidates_rows_same: "rows d' = rows d \<Longrightarrow> candidates d' = candidates d"
  by (simp add: candidates_def fun_eq_iff)

lemma candidates_id: "candidates d key = Some c \<Longrightarrow> c ''id'' = Some (JStr key)"
  by (auto simp: candidates_def find_Some_iff is_str_iff)


lemma find_rewritten:
  assumes "ch ''id'' = None \<or> ch ''id'' = Some (JStr key)"
  shows "List.find (\<lambda>c. is_str (c ''id'') j)
           (map (\<lambda>c. if is_str (c ''id'') key then c ++ ch else c) rs)
         = (if j = key then map_option (\<lambda>c. c ++ ch) (List.find (\<lambda>c. is_str (c ''id'') key) rs)
            else List.find (\<lambda>c. is_str (c ''id'') j) rs)"
  using assms by (induction rs) (auto simp: is_str_iff map_add_def split: option.splits)

lemma candidates_rewritten:
  assumes "ch ''id'' = None \<or> ch ''id'' = Some (JStr key)"
  shows "candidates (d\<lparr>rows := map (\<lambda>c. if is_str (c ''id'') key then c ++ ch else c) (rows d)\<rparr>) j
         = (if j = key then map_option (\<lambda>c. c ++ ch) (candidates d key) else candidates d j)"
  using find_rewritten [where ch = ch and key = key and j = j and rs = "rows d", OF assms]
  by (simp add: candidates_def)

lemma set_stage_rewrite:
  "map (\<lambda>c. if is_str (c ''id'') a then c ++ [''stage'' \<mapsto> JStr t] else c) rs = set_stage a t rs"
  by (simp add: set_stage_def cong: if_cong)

lemma candidates_set_stage:
  "candidates (d\<lparr>rows := set_stage a t (rows d)\<rparr>) j
     = (if j = a then map_option (\<lambda>c. c(''stage'' \<mapsto> JStr t)) (candidates d a) else candidates d j)"
  using candidates_rewritten [of "[''stage'' \<mapsto> JStr t]" a d j]
  by (simp add: set_stage_def cong: if_cong)

lemma set_stage_nonempty [simp]: "set_stage a t rs = [] \<longleftrightarrow> rs = []"
  by (simp add: set_stage_def)


section \<open>The mutation life cycle, case by case\<close>

lemma set_stage_idem: "set_stage a t (set_stage a t cs) = set_stage a t cs"
  by (induction cs) (auto simp: set_stage_def is_str_def)

lemma start_no_data:
  "queryData k = None \<Longrightarrow>
   start vars k = (Raised (Error ''Cannot read properties of undefined (reading map)'') None, k)"
  by (simp add: start_def onMutate_def setQueryData_stage_def)

lemma start_data:
  "queryData k = Some cs \<Longrightarrow>
   start vars k = (Pending cs (set_stage (fst vars) (snd vars) cs),
                   k\<lparr>queryData := Some (set_stage (fst vars) (snd vars) cs)\<rparr>)"
  by (simp add: start_def onMutate_def setQueryData_stage_def mutationFn_enter_def
                filteredCandidates_def set_stage_idem)

lemma complete_raised:
  "complete e vars (Raised err ctx) k = (Inl err, onSettled (onError ctx k))"
  by (simp add: complete_def)

lemma complete_rejected:
  "rejects e OpUpdate = Some msg \<Longrightarrow>
   complete e vars (Pending prev cur) k =
     (Inl (Error msg),
      onSettled (onError (Some prev)
        (k\<lparr>store := (store k)\<lparr>calls := calls (store k) @ [CandidatesUpdate (fst vars)]\<rparr>\<rparr>)))"
  by (simp add: complete_def mutationFn_write_def db_candidates_update_def Let_def)

lemma complete_written:
  "rejects e OpUpdate = None \<Longrightarrow>
   complete e vars (Pending prev cur) k =
     (Inr cur,
      onSettled (k\<lparr>store := (store k)\<lparr>calls := calls (store k) @ [CandidatesUpdate (fst vars)],
          rows := set_stage (fst vars) (snd vars) (rows (store k))\<rparr>\<rparr>))"
  by (simp add: complete_def mutationFn_write_def db_candidates_update_def Let_def
                set_stage_rewrite)

lemma mutateAsync_failed:
  assumes "mutateAsync e vars k = (Inl err, k')"
  shows "queryData k' = queryData k \<and> timeline (store k') = timeline (store k)
         \<and> candidates (store k') = candidates (store k)"
proof (cases "queryData k")
  case None
  with assms show ?thesis
    by (auto simp: mutateAsync_def start_no_data complete_raised onSettled_def onError_def)
next
  case (Some cs)
  show ?thesis
  proof (cases "rejects e OpUpdate")
    case None
    with Some assms show ?thesis
      by (simp add: mutateAsync_def start_data complete_written)
  next
    case (Some msg)
    with \<open>queryData k = Some cs\<close> assms show ?thesis
      by (auto simp: mutateAsync_def start_data complete_rejected onSettled_def onError_def)
  qed
qed



lemma mutateAsync_succeeded:
  assumes "mutateAsync e (cid, t) k = (Inr data, k')"
  shows "candidates (store k') =
           (case candidates (store k) cid of
              None \<Rightarrow> candidates (store k)
            | Some c \<Rightarrow> (candidates (store k))(cid \<mapsto> c(''stage'' \<mapsto> JStr t)))"
proof (cases "queryData k")
  case None
  with assms show ?thesis
    by (simp add: mutateAsync_def start_no_data complete_raised)
next
  case (Some cs)
  show ?thesis
  proof (cases "rejects e OpUpdate")
    case None
    with Some assms
    have "store k' = (store k)\<lparr>calls := calls (store k) @ [CandidatesUpdate cid],
                                rows := set_stage cid t (rows (store k))\<rparr>"
      by (auto simp: mutateAsync_def start_data complete_written onSettled_def)
    then have "candidates (store k') j
                 = (if j = cid then map_option (\<lambda>c. c(''stage'' \<mapsto> JStr t)) (candidates (store k) cid)
                    else candidates (store k) j)" for j
      using candidates_set_stage [of cid t "(store k)\<lparr>calls := calls (store k) @ [CandidatesUpdate cid]\<rparr>" j]
      by simp
    then show ?thesis
      by (auto simp: fun_eq_iff split: option.splits)
  next
    case (Some msg)
    with \<open>queryData k = Some cs\<close> assms show ?thesis
      by (simp add: mutateAsync_def start_data complete_rejected)
  qed
qed

lemma list_mutationFn_failed:
  assumes "list_mutationFn e vars d = (Inl err, d')"
  shows "timeline d' = timeline d"
    and "rejects e OpUpdate \<noteq> None \<Longrightarrow> candidates d' = candidates d"
  using assms
  by (auto simp: list_mutationFn_def db_candidates_update_def db_timeline_add_def Let_def
           split: option.splits if_splits)

lemma onMutate_data:
  "queryData k = Some cs \<Longrightarrow>
   onMutate vars k = (Inr cs, k\<lparr>queryData := Some (set_stage (fst vars) (snd vars) cs)\<rparr>)"
  by (simp add: onMutate_def setQueryData_stage_def filteredCandidates_def)


section \<open>The store calls, observed\<close>

lemma get_observed:
  assumes "db_candidates_get e key d = (g, d')"
  shows "rows d' = rows d" and "timeline d' = timeline d"
    and "calls d' = calls d @ [CandidatesGet key]"
    and "g = (case rejects e OpGet of Some msg \<Rightarrow> Inl (Error msg) | None \<Rightarrow> Inr (candidates d key))"
  using assms by (auto simp: db_candidates_get_def Let_def split: option.splits)

lemma add_failed:
  assumes "db_timeline_add e ev d = (Inl err, d')"
  shows "rows d' = rows d" and "timeline d' = timeline d"
  using assms by (auto simp: db_timeline_add_def Let_def split: option.splits if_splits)

lemma add_done:
  assumes "db_timeline_add e ev d = (Inr x, d')"
  shows "rows d' = rows d" and "timeline d' = timeline d @ [ev]"
  using assms by (auto simp: db_timeline_add_def Let_def split: option.splits if_splits)

lemma update_failed:
  assumes "db_candidates_update e key ch d = (Inl err, d')"
  shows "rows d' = rows d" and "timeline d' = timeline d"
    and "rejects e OpUpdate = Some (message err)"
  using assms by (auto simp: db_candidates_update_def Let_def split: option.splits)

lemma update_done:
  assumes "db_candidates_update e key ch d = (Inr x, d')"
  shows "rows d' = map (\<lambda>c. if is_str (c ''id'') key then c ++ ch else c) (rows d)"
    and "timeline d' = timeline d" and "rejects e OpUpdate = None"
  using assms by (auto simp: db_candidates_update_def Let_def split: option.splits)

lemma status_handleError [simp]: "status (handleError err) = 500"
  by (simp add: handleError_def)


section \<open>The PATCH handler, case by case\<close>

lemma patch_net:
  "netError e \<Longrightarrow>
   patch_candidate e cid request d = (handleError (Error ''Simulated network error''), d)"
  by (simp add: patch_candidate_def simulateNetwork_def)

lemma patch_malformed:
  "\<not> netError e \<Longrightarrow>
   patch_candidate e cid (Malformed msg) d = (handleError (Error msg), d)"
  by (simp add: patch_candidate_def simulateNetwork_def request_json_def)

lemma patch_get_rejected:
  "\<not> netError e \<Longrightarrow> rejects e OpGet = Some msg \<Longrightarrow>
   patch_candidate e cid (Json parsed) d
     = (handleError (Error msg), d\<lparr>calls := calls d @ [CandidatesGet cid]\<rparr>)"
  by (simp add: patch_candidate_def simulateNetwork_def request_json_def db_candidates_get_def
                Let_def)

lemma patch_not_found:
  "\<not> netError e \<Longrightarrow> rejects e OpGet = None \<Longrightarrow> candidates d cid = None \<Longrightarrow>
   patch_candidate e cid (Json parsed) d
     = (Response 404 [''error'' \<mapsto> JStr ''Candidate not found''],
        d\<lparr>calls := calls d @ [CandidatesGet cid]\<rparr>)"
  by (simp add: patch_candidate_def simulateNetwork_def request_json_def db_candidates_get_def
                Let_def)

lemma patch_null_body:
  "\<not> netError e \<Longrightarrow> rejects e OpGet = None \<Longrightarrow> candidates d cid = Some c \<Longrightarrow>
   patch_candidate e cid (Json JNull) d
     = (handleError (Error ''Cannot read properties of null (reading stage)''),
        d\<lparr>calls := calls d @ [CandidatesGet cid]\<rparr>)"
  by (simp add: patch_candidate_def simulateNetwork_def request_json_def db_candidates_get_def
                read_stage_def Let_def)

text \<open>A candidate is found and the body is not \<open>null\<close>: the two writes remain.\<close>

lemma patch_found:
  assumes "\<not> netError e" and "rejects e OpGet = None" and "candidates d cid = Some c"
      and "parsed \<noteq> JNull"
  shows "patch_candidate e cid (Json parsed) d =
           (case (if stage_changed (spread parsed) c
                  then db_timeline_add e (patch_event e cid c (spread parsed))
                         (d\<lparr>calls := calls d @ [CandidatesGet cid]\<rparr>)
                  else (Inr (), d\<lparr>calls := calls d @ [CandidatesGet cid]\<rparr>)) of
              (Inl err, d2) \<Rightarrow> (handleError err, d2)
            | (Inr x, d2) \<Rightarrow>
                (case db_candidates_update e cid
                        ((c ++ spread parsed)(''updatedAt'' \<mapsto> JStr (isoNow e 0))) d2 of
                   (Inl err, d3) \<Rightarrow> (handleError err, d3)
                 | (Inr y, d3) \<Rightarrow>
                     (Response 200 ((c ++ spread parsed)(''updatedAt'' \<mapsto> JStr (isoNow e 0))), d3)))"
proof -
  from assms(4) obtain st where "read_stage parsed = Inr st"
    by (cases parsed) (simp_all add: read_stage_def)
  with assms(1-3) show ?thesis
    by (simp add: patch_candidate_def simulateNetwork_def request_json_def db_candidates_get_def
                  Let_def)
qed

lemma patch_event_has_key: "has_key (patch_event e cid c u)"
  by (simp add: has_key_def patch_event_def)

lemma patch_update_rejected_after_add:
  assumes "\<not> netError e" and "rejects e OpGet = None" and "candidates d cid = Some c"
      and "parsed \<noteq> JNull" and "stage_changed (spread parsed) c"
      and "rejects e OpAdd = None" and "rejects e OpUpdate = Some msg"
      and "\<not> list_ex (\<lambda>x. x ''id'' = Some (JStr (randomUUID e))) (timeline d)"
  shows "patch_candidate e cid (Json parsed) d
     = (handleError (Error msg),
        d\<lparr>calls := calls d @ [CandidatesGet cid, TimelineAdd, CandidatesUpdate cid],
          timeline := timeline d @ [patch_event e cid c (spread parsed)]\<rparr>)"
proof -
  have i: "patch_event e cid c (spread parsed) ''id'' = Some (JStr (randomUUID e))"
    by (simp add: patch_event_def)
  from assms(5-8) show ?thesis
    unfolding patch_found [OF assms(1-4)]
    by (simp add: db_timeline_add_def db_candidates_update_def Let_def patch_event_has_key i)
qed

lemma patch_written_after_add:
  assumes "\<not> netError e" and "rejects e OpGet = None" and "candidates d cid = Some c"
      and "parsed \<noteq> JNull" and "stage_changed (spread parsed) c"
      and "rejects e OpAdd = None" and "rejects e OpUpdate = None"
      and "\<not> list_ex (\<lambda>x. x ''id'' = Some (JStr (randomUUID e))) (timeline d)"
  shows "patch_candidate e cid (Json parsed) d
     = (Response 200 ((c ++ spread parsed)(''updatedAt'' \<mapsto> JStr (isoNow e 0))),
        d\<lparr>calls := calls d @ [CandidatesGet cid, TimelineAdd, CandidatesUpdate cid],
          timeline := timeline d @ [patch_event e cid c (spread parsed)],
          rows := map (\<lambda>x. if is_str (x ''id'') cid
                            then x ++ (c ++ spread parsed)(''updatedAt'' \<mapsto> JStr (isoNow e 0))
                            else x) (rows d)\<rparr>)"
proof -
  have i: "patch_event e cid c (spread parsed) ''id'' = Some (JStr (randomUUID e))"
    by (simp add: patch_event_def)
  from assms(5-8) show ?thesis
    unfolding patch_found [OF assms(1-4)]
    by (simp add: db_timeline_add_def db_candidates_update_def Let_def patch_event_has_key i)
qed

lemma patch_effects:
  assumes "patch_candidate e cid request d = (r, d')"
  shows "(status r = 200
          \<and> (\<exists>c parsed. request = Json parsed \<and> candidates d cid = Some c
                \<and> r = Response 200 ((c ++ spread parsed)(''updatedAt'' \<mapsto> JStr (isoNow e 0)))
                \<and> rows d' = map (\<lambda>x. if is_str (x ''id'') cid
                                      then x ++ (c ++ spread parsed)(''updatedAt'' \<mapsto> JStr (isoNow e 0))
                                      else x) (rows d)
                \<and> timeline d' = (if stage_changed (spread parsed) c
                                  then timeline d @ [patch_event e cid c (spread parsed)]
                                  else timeline d)))
       \<or> (status r = 404 \<and> candidates d cid = None \<and> \<not> netError e
          \<and> r = Response 404 [''error'' \<mapsto> JStr ''Candidate not found'']
          \<and> rows d' = rows d \<and> timeline d' = timeline d)
       \<or> (status r = 500 \<and> rows d' = rows d
          \<and> (timeline d' = timeline d
              \<or> (\<exists>c parsed msg. request = Json parsed \<and> candidates d cid = Some c
                    \<and> stage_changed (spread parsed) c
                    \<and> rejects e OpUpdate = Some msg
                    \<and> timeline d' = timeline d @ [patch_event e cid c (spread parsed)])))"
proof (cases "netError e")
  case True
  with assms show ?thesis by (auto simp: patch_net)
next
  case net: False
  show ?thesis
  proof (cases request)
    case (Malformed msg)
    with net assms show ?thesis by (auto simp: patch_malformed)
  next
    case (Json parsed)
    show ?thesis
    proof (cases "rejects e OpGet")
      case (Some msg)
      with net Json assms show ?thesis by (auto simp: patch_get_rejected)
    next
      case get: None
      show ?thesis
      proof (cases "candidates d cid")
        case None
        with net get Json assms show ?thesis by (auto simp: patch_not_found)
      next
        case (Some c)
        show ?thesis
        proof (cases "parsed = JNull")
          case True
          with net get Some Json assms show ?thesis by (auto simp: patch_null_body)
        next
          case body: False
          let ?d1 = "d\<lparr>calls := calls d @ [CandidatesGet cid]\<rparr>"
          let ?u = "(c ++ spread parsed)(''updatedAt'' \<mapsto> JStr (isoNow e 0))"
          note found = patch_found [OF net get Some body]
          obtain a d2 where add:
            "(if stage_changed (spread parsed) c
              then db_timeline_add e (patch_event e cid c (spread parsed)) ?d1
              else (Inr (), ?d1)) = (a, d2)"
            by (cases "if stage_changed (spread parsed) c
                       then db_timeline_add e (patch_event e cid c (spread parsed)) ?d1
                       else (Inr (), ?d1)") auto
          show ?thesis
          proof (cases a)
            case (Inl err)
            with add have "stage_changed (spread parsed) c"
              and "db_timeline_add e (patch_event e cid c (spread parsed)) ?d1 = (Inl err, d2)"
              by (auto split: if_splits)
            from add_failed [OF this(2)] have "rows d2 = rows d" "timeline d2 = timeline d"
              by simp_all
            moreover from assms Json found add Inl have "r = handleError err" "d' = d2"
              by simp_all
            ultimately show ?thesis by simp
          next
            case (Inr x)
            have d2: "rows d2 = rows d"
                     "timeline d2 = (if stage_changed (spread parsed) c
                                     then timeline d @ [patch_event e cid c (spread parsed)]
                                     else timeline d)"
              using add Inr add_done [of e "patch_event e cid c (spread parsed)" ?d1 x d2]
              by (auto split: if_splits)
            obtain b d3 where upd: "db_candidates_update e cid ?u d2 = (b, d3)"
              by (cases "db_candidates_update e cid ?u d2") auto
            show ?thesis
            proof (cases b)
              case failed: (Inl err)
              from update_failed [OF upd [unfolded failed]] d2
              have "rows d3 = rows d"
                   "timeline d3 = (if stage_changed (spread parsed) c
                                   then timeline d @ [patch_event e cid c (spread parsed)]
                                   else timeline d)"
                   "rejects e OpUpdate = Some (message err)"
                by simp_all
              moreover from assms Json found add Inr upd failed
              have "r = handleError err" "d' = d3"
                by simp_all
              ultimately show ?thesis using Some Json by auto
            next
              case written: (Inr y)
              from update_done [OF upd [unfolded written]] d2
              have "rows d3 = map (\<lambda>x. if is_str (x ''id'') cid then x ++ ?u else x) (rows d)"
                   "timeline d3 = (if stage_changed (spread parsed) c
                                   then timeline d @ [patch_event e cid c (spread parsed)]
                                   else timeline d)"
                by simp_all
              moreover from assms Json found add Inr upd written
              have "r = Response 200 ?u" "d' = d3"
                by simp_all
              ultimately show ?thesis using Some Json by auto
            qed
          qed
        qed
      qed
    qed
  qed
qed


section \<open>Sample runs\<close>

lemma sample_ids:
  "is_str (cand_a ''id'') ''a''" "is_str (cand_b ''id'') ''b''" "is_str (cand_c ''id'') ''c''"
  "\<not> is_str (cand_a ''id'') ''b''" "\<not> is_str (cand_a ''id'') ''c''"
  "\<not> is_str (cand_b ''id'') ''a''" "\<not> is_str (cand_b ''id'') ''c''"
  "\<not> is_str (cand_c ''id'') ''a''" "\<not> is_str (cand_c ''id'') ''b''"
  "\<not> is_str (cand_a ''id'') ''ghost''" "\<not> is_str (cand_b ''id'') ''ghost''"
  "\<not> is_str (cand_c ''id'') ''ghost''"
  by (simp_all add: is_str_def cand_a_def cand_b_def cand_c_def)

lemma sample_candidates:
  "candidates db0 ''a'' = Some cand_a" "candidates db0 ''b'' = Some cand_b"
  "candidates db0 ''c'' = Some cand_c" "candidates db0 ''ghost'' = None"
  "candidates (store kanban0) ''a'' = Some cand_a"
  "candidates (store kanban0) ''b'' = Some cand_b"
  "candidates (store kanban0) ''ghost'' = None"
  by (simp_all add: candidates_def db0_def kanban0_def sample_ids)

lemma ex_failed_commit:
  "mutateAsync env_update_rejected (''a'', ''tech'') kanban0
     = (Inl (Error ''QuotaExceededError''), snd (mutateAsync env_update_rejected (''a'', ''tech'') kanban0))"
  by (simp add: mutateAsync_def start_data [where cs = "[cand_a, cand_b, cand_c]"] kanban0_def
        complete_rejected [where msg = "''QuotaExceededError''"] env_update_rejected_def)

lemma ex_failed_list:
  "list_mutationFn env_add_rejected (''a'', ''tech'') db0
     = (Inl (Error ''DataError''), snd (list_mutationFn env_add_rejected (''a'', ''tech'') db0))"
  by (simp add: list_mutationFn_def db_candidates_update_def db_timeline_add_def Let_def
        env_add_rejected_def env_ok_def db0_def)

lemma ex_commit:
  "mutateAsync env_ok (''a'', ''screen'') kanban0
     = (Inr (set_stage ''a'' ''screen'' [cand_a, cand_b, cand_c]),
        snd (mutateAsync env_ok (''a'', ''screen'') kanban0))"
  by (simp add: mutateAsync_def start_data [where cs = "[cand_a, cand_b, cand_c]"] kanban0_def
        complete_written env_ok_def)

lemma ex_stage_changed:
  "stage_changed (spread (JObj [(''stage'', JStr ''screen'')])) cand_a"
  by (simp add: stage_changed_def cand_a_def)

lemma ex_failed_patch_state:
  "patch_candidate env_update_rejected ''a'' (stage_body ''screen'') db0
     = (handleError (Error ''QuotaExceededError''),
        db0\<lparr>calls := calls db0 @ [CandidatesGet ''a'', TimelineAdd, CandidatesUpdate ''a''],
            timeline := timeline db0 @ [patch_event env_update_rejected ''a'' cand_a
                                          (spread (JObj [(''stage'', JStr ''screen'')]))]\<rparr>)"
  unfolding stage_body_def
  by (rule patch_update_rejected_after_add [OF _ _ sample_candidates(1) _ ex_stage_changed])
     (simp_all add: env_update_rejected_def env_ok_def db0_def)

lemma ex_failed_patch:
  "patch_candidate env_update_rejected ''a'' (stage_body ''screen'') db0
     = (handleError (Error ''QuotaExceededError''),
        snd (patch_candidate env_update_rejected ''a'' (stage_body ''screen'') db0))"
  by (simp add: ex_failed_patch_state)


section \<open>What each path does on success\<close>

text \<open>
  The PATCH handler, when nothing fails, the body names a stage other than the stored one
  and the random identifier is not in the timeline yet: the stored stage becomes the new
  one and exactly one event is appended, of type \<open>stage_change\<close>, whose metadata records
  the old and the new stage.
\<close>

lemma patch_stage_change_appends_event:
  assumes "\<not> netError e" and "rejects e = (\<lambda>op. None)"
      and "candidates d cid = Some c" and "c ''stage'' = Some (JStr s)"
      and "t \<noteq> s" and "t \<noteq> []"
      and "\<not> list_ex (\<lambda>x. x ''id'' = Some (JStr (randomUUID e))) (timeline d)"
  shows "\<exists>u ev d'. patch_candidate e cid (stage_body t) d = (Response 200 u, d')
               \<and> timeline d' = timeline d @ [ev]
               \<and> candidates d' cid = Some u
               \<and> u ''stage'' = Some (JStr t)
               \<and> ev ''type'' = Some (JStr ''stage_change'')
               \<and> ev ''candidateId'' = Some (JStr cid)
               \<and> ev ''metadata'' = Some (JObj [(''from'', JStr s), (''to'', JStr t)])"
proof -
  let ?p = "JObj [(''stage'', JStr t)]"
  let ?u = "(c ++ spread ?p)(''updatedAt'' \<mapsto> JStr (isoNow e 0))"
  let ?ev = "patch_event e cid c (spread ?p)"
  let ?d' = "d\<lparr>calls := calls d @ [CandidatesGet cid, TimelineAdd, CandidatesUpdate cid],
               timeline := timeline d @ [?ev],
               rows := map (\<lambda>x. if is_str (x ''id'') cid then x ++ ?u else x) (rows d)\<rparr>"
  from assms(4-6) have ch: "stage_changed (spread ?p) c"
    by (simp add: stage_changed_def)
  from assms(2) have r: "rejects e OpGet = None" "rejects e OpAdd = None" "rejects e OpUpdate = None"
    by simp_all
  have 1: "patch_candidate e cid (stage_body t) d = (Response 200 ?u, ?d')"
    unfolding stage_body_def
    by (rule patch_written_after_add [OF assms(1) r(1) assms(3) _ ch r(2,3) assms(7)]) simp
  from candidates_id [OF assms(3)] have i: "?u ''id'' = None \<or> ?u ''id'' = Some (JStr cid)"
    by (simp add: map_add_def)
  have "candidates ?d' cid = map_option (\<lambda>x. x ++ ?u) (candidates d cid)"
    using find_rewritten [where ch = ?u and key = cid and j = cid and rs = "rows d", OF i]
    by (simp add: candidates_def)
  with assms(3) have 2: "candidates ?d' cid = Some ?u"
    by (simp add: merge_over)
  have 3: "?u ''stage'' = Some (JStr t)"
    by simp
  have 4: "?ev ''type'' = Some (JStr ''stage_change'')"
    "?ev ''candidateId'' = Some (JStr cid)"
    "?ev ''metadata'' = Some (JObj [(''from'', JStr s), (''to'', JStr t)])"
    using assms(4) by (simp_all add: patch_event_def field_def)
  have 5: "timeline ?d' = timeline d @ [?ev]"
    by simp
  from 1 2 3 4 5 show ?thesis by blast
qed



section \<open>The grouping, computed\<close>

lemma group_reduce_eq:
  "group_reduce cs =
     [''applied'' \<mapsto> filter (\<lambda>c. is_str (c ''stage'') ''applied'') cs,
      ''screen'' \<mapsto> filter (\<lambda>c. is_str (c ''stage'') ''screen'') cs,
      ''tech'' \<mapsto> filter (\<lambda>c. is_str (c ''stage'') ''tech'') cs,
      ''offer'' \<mapsto> filter (\<lambda>c. is_str (c ''stage'') ''offer'') cs,
      ''hired'' \<mapsto> filter (\<lambda>c. is_str (c ''stage'') ''hired'') cs,
      ''rejected'' \<mapsto> filter (\<lambda>c. is_str (c ''stage'') ''rejected'') cs]"
  by (simp add: group_reduce_def STAGES_def)

lemma candidatesByStage_eq: "candidatesByStage cs = group_reduce cs"
  by (simp add: candidatesByStage_def group_reduce_eq) (simp add: STAGES_def)

lemma candidatesByStage_key:
  "s \<in> set stage_registry \<Longrightarrow>
   candidatesByStage cs s = Some (filter (\<lambda>c. is_str (c ''stage'') s) cs)"
  by (auto simp: candidatesByStage_eq group_reduce_eq stage_registry_def)

lemma candidatesByStage_dom: "dom (candidatesByStage cs) = set stage_registry"
  by (auto simp: candidatesByStage_eq group_reduce_eq stage_registry_def split: if_splits)

lemma columns_eq:
  "columns cs = map (\<lambda>s. filter (\<lambda>c. is_str (c ''stage'') s) cs) stage_registry"
  by (simp add: columns_def candidatesByStage_eq group_reduce_eq) (simp add: STAGES_def stage_registry_def)

lemma partition_by_key:
  "distinct ss \<Longrightarrow>
   mset (concat (map (\<lambda>s. filter (\<lambda>c. f c = Some (JStr s)) cs) ss))
     = mset (filter (\<lambda>c. list_ex (\<lambda>s. f c = Some (JStr s)) ss) cs)"
proof (induction ss)
  case Nil
  then show ?case by simp
next
  case (Cons s ss)
  have "mset (filter (\<lambda>c. f c = Some (JStr s)) cs)
          + mset (filter (\<lambda>c. list_ex (\<lambda>s. f c = Some (JStr s)) ss) cs)
        = mset (filter (\<lambda>c. f c = Some (JStr s) \<or> list_ex (\<lambda>s. f c = Some (JStr s)) ss) cs)"
    using Cons.prems by (induction cs) (auto simp: list_ex_iff)
  with Cons show ?case by simp
qed


section \<open>Drops that change nothing\<close>

text \<open>
  In the Kanban component a card released outside every target, or on a target that
  resolves to the stage the candidate is at, only clears the dragged card: the cache, the
  store with its call log, the notifications and the invalidations are as before.  A card
  of the shown page resolves to the column it is in.  In the list view,
  \<open>handleStageDrop\<close> with the stage the candidate is at changes nothing.
\<close>

lemma kanban_release_outside_noop:
  "handleDragEnd e active_id None k = k\<lparr>activeId := None\<rparr>"
  by (simp add: handleDragEnd_def)

lemma kanban_same_stage_drop_noop:
  assumes "resolve_stage target k = Some stage"
      and "List.find (\<lambda>c. is_str (c ''id'') active_id) (filteredCandidates k) = Some candidate"
      and "is_str (candidate ''stage'') stage"
  shows "handleDragEnd e active_id (Some target) k = k\<lparr>activeId := None\<rparr>"
  using assms by (simp add: handleDragEnd_def)

lemma handleStageDrop_same_stage_noop:
  assumes "List.find (\<lambda>c. is_str (c ''id'') candidateId) (candidatesData v) = Some candidate"
      and "is_str (candidate ''stage'') newStage"
  shows "handleStageDrop e candidateId newStage v = v"
  using assms by (simp add: handleStageDrop_def)

lemma mutateAsync_unsplit:
  "mutateAsync e vars k =
     (case onMutate vars k of
        (Inl err, k1) \<Rightarrow> (Inl err, onSettled (onError None k1))
      | (Inr previousCandidates, k1) \<Rightarrow>
          (case mutationFn e vars k1 of
             (Inl err, k2) \<Rightarrow> (Inl err, onSettled (onError (Some previousCandidates) k2))
           | (Inr data, k2) \<Rightarrow> (Inr data, onSettled k2)))"
  by (simp add: mutateAsync_def start_def complete_def mutationFn_def
           split: prod.splits sum.splits)

lemma stage_value_registered: "st \<in> set STAGES \<Longrightarrow> stage_value st \<in> set stage_registry"
  by (auto simp: STAGES_def stage_registry_def)

lemma is_stage_value: "list_ex (\<lambda>s. stage_value s = target) STAGES \<longleftrightarrow> target \<in> set stage_registry"
  by (auto simp: STAGES_def stage_registry_def)

lemma find_stage:
  "s \<in> set stage_registry \<Longrightarrow>
   map_option stage_value (List.find (\<lambda>st. stage_value st = s) STAGES) = Some s"
  by (auto simp: STAGES_def stage_registry_def)

lemma kanban_card_resolves_to_its_column:
  assumes "target \<notin> set stage_registry"
      and "stage \<in> set stage_registry"
      and "list_ex (\<lambda>c. is_str (c ''id'') target) (paginatedCandidates k)"
      and "list_all (\<lambda>c. is_str (c ''id'') target \<longrightarrow> is_str (c ''stage'') stage)
                    (paginatedCandidates k)"
  shows "resolve_stage target k = Some stage"
proof -
  have col: "list_ex (\<lambda>c. is_str (c ''id'') target)
               (filter (\<lambda>c. is_str (c ''stage'') s) (paginatedCandidates k)) \<longleftrightarrow> s = stage" for s
    using assms(3,4) by (auto simp: list_ex_iff list_all_iff is_str_iff)
  have "List.find (\<lambda>st. case candidatesByStage (paginatedCandidates k) (stage_value st) of
                           None \<Rightarrow> False
                         | Some column \<Rightarrow> list_ex (\<lambda>c. is_str (c ''id'') target) column) STAGES
        = List.find (\<lambda>st. stage_value st = stage) STAGES"
    by (rule find_cong [OF refl]) (simp add: candidatesByStage_key stage_value_registered col)
  with assms(1,2) show ?thesis
    by (simp add: resolve_stage_def is_stage_value find_stage)
qed


section \<open>Reloads, observed\<close>






lemma reloads_Nil [simp]: "reloads [] k = k"
  by (simp add: reloads_def)






section \<open>Two mutations in flight, observed\<close>







section \<open>Two mutations in flight, the cached list\<close>







section \<open>The stage lists and the shapes of timeline records\<close>

text \<open>
  The stage lists of the source -- the Kanban component's \<open>STAGES\<close> and mock generator,
  the board's and the detail page's \<open>STAGES\<close>, the two seed files, the title and label
  tables and the list view's filter -- are transcribed above; they enumerate the same six
  values, \<open>applied, screen, tech, offer, hired, rejected\<close>, in this order and without
  repetition.
\<close>

lemma stage_lists_agree:
  "map stage_value STAGES = stage_registry
   \<and> mock_stages = stage_registry
   \<and> map fst board_STAGES = stage_registry
   \<and> map fst detail_STAGES = stage_registry
   \<and> lib_seed_STAGES = stage_registry
   \<and> mocks_seed_STAGES = stage_registry
   \<and> map fst STAGE_TITLES = stage_registry
   \<and> map fst STAGE_LABELS = stage_registry
   \<and> map fst filter_items = stage_registry
   \<and> stage_registry = [''applied'', ''screen'', ''tech'', ''offer'', ''hired'', ''rejected'']
   \<and> distinct stage_registry"
  by (simp add: STAGES_def mock_stages_def board_STAGES_def detail_STAGES_def
                lib_seed_STAGES_def mocks_seed_STAGES_def STAGE_TITLES_def STAGE_LABELS_def
                filter_items_def stage_registry_def)




section \<open>A stage change through the Kanban component\<close>

text \<open>
  Claim C1, at a failing input.  \<open>cand_a\<close> is at stage \<open>applied\<close> and its card is dropped
  on the column \<open>screen\<close>, with nothing failing.  The persisted stage becomes \<open>screen\<close>
  through a single \<open>db.candidates.update\<close>, no error is notified, and the timeline is as
  empty as before: the Kanban path appends no \<open>stage_change\<close> event, which the PATCH
  handler does on its own path.
\<close>

theorem kanban_drop_appends_no_event:
  "the (candidates (store kanban0) ''a'') ''stage'' = Some (JStr ''applied'')
   \<and> the (candidates (store (handleDragEnd env_ok ''a'' (Some ''screen'') kanban0)) ''a'') ''stage''
        = Some (JStr ''screen'')
   \<and> calls (store (handleDragEnd env_ok ''a'' (Some ''screen'') kanban0)) = [CandidatesUpdate ''a'']
   \<and> toasts (handleDragEnd env_ok ''a'' (Some ''screen'') kanban0) = []
   \<and> timeline (store (handleDragEnd env_ok ''a'' (Some ''screen'') kanban0)) = []"
  by (simp add: handleDragEnd_def kanban0_def db0_def cand_a_def cand_b_def cand_c_def env_ok_def
        resolve_stage_def STAGES_def filteredCandidates_def is_str_def mutateAsync_def start_def
        onMutate_def setQueryData_stage_def set_stage_def mutationFn_enter_def complete_def
        mutationFn_write_def db_candidates_update_def onSettled_def onError_def Let_def
        candidates_def)


text \<open>
  Claim C3.  \<open>onMutate\<close> takes the cached list as its snapshot and then applies the
  optimistic rewrite.  When the commit fails, the cached list afterwards is the list from
  before the call, so every cached candidate equals its snapshot in every property; the
  failed attempt has appended nothing to the timeline and changed no stored candidate.
  Whatever else happened to the cache while the write was awaited, handling the rejected
  write puts back exactly the snapshot.  In the list view, which rewrites no cache, a failing \<open>mutationFn\<close> has appended nothing
  to the timeline either.
\<close>

theorem failed_commit_restores_snapshot:
  "(queryData k = Some cs \<longrightarrow>
      fst (onMutate vars k) = Inr cs
      \<and> queryData (snd (onMutate vars k)) = Some (set_stage (fst vars) (snd vars) cs))
   \<and> (mutateAsync e vars k = (Inl err, k') \<longrightarrow>
        queryData k' = queryData k
        \<and> timeline (store k') = timeline (store k)
        \<and> candidates (store k') = candidates (store k))
   \<and> (rejects e3 OpUpdate = Some msg \<longrightarrow>
        queryData (snd (complete e3 vars3 (Pending snapshot cur) k3)) = Some snapshot
        \<and> timeline (store (snd (complete e3 vars3 (Pending snapshot cur) k3))) = timeline (store k3)
        \<and> candidates (store (snd (complete e3 vars3 (Pending snapshot cur) k3)))
            = candidates (store k3))
   \<and> (list_mutationFn e2 vars2 d = (Inl err2, d') \<longrightarrow> timeline d' = timeline d)"
  using mutateAsync_failed [of e vars k err k'] list_mutationFn_failed(1) [of e2 vars2 d err2 d']
  by (simp add: onMutate_data complete_rejected onSettled_def onError_def)

theorem failed_commit_restores_snapshot_witness:
  "queryData kanban0 = Some [cand_a, cand_b, cand_c]
   \<and> fst (onMutate (''a'', ''tech'') kanban0) = Inr [cand_a, cand_b, cand_c]
   \<and> fst (mutateAsync env_update_rejected (''a'', ''tech'') kanban0) = Inl (Error ''QuotaExceededError'')
   \<and> queryData (snd (mutateAsync env_update_rejected (''a'', ''tech'') kanban0)) = queryData kanban0
   \<and> timeline (store (snd (mutateAsync env_update_rejected (''a'', ''tech'') kanban0)))
        = timeline (store kanban0)
   \<and> fst (list_mutationFn env_add_rejected (''a'', ''tech'') db0) = Inl (Error ''DataError'')
   \<and> timeline (snd (list_mutationFn env_add_rejected (''a'', ''tech'') db0)) = timeline db0
   \<and> rejects env_update_rejected OpUpdate = Some ''QuotaExceededError''
   \<and> queryData (snd (complete env_update_rejected (''b'', ''offer'')
                        (Pending [cand_a, cand_b, cand_c]
                                 (set_stage ''b'' ''offer'' [cand_a, cand_b, cand_c])) kanban0))
        = Some [cand_a, cand_b, cand_c]"
proof -
  have q: "queryData kanban0 = Some [cand_a, cand_b, cand_c]"
    by (simp add: kanban0_def)
  have r: "rejects env_update_rejected OpUpdate = Some ''QuotaExceededError''"
    by (simp add: env_update_rejected_def)
  from ex_failed_commit have f1:
    "fst (mutateAsync env_update_rejected (''a'', ''tech'') kanban0) = Inl (Error ''QuotaExceededError'')"
    by (metis fst_conv)
  from ex_failed_list have f2:
    "fst (list_mutationFn env_add_rejected (''a'', ''tech'') db0) = Inl (Error ''DataError'')"
    by (metis fst_conv)
  from failed_commit_restores_snapshot
         [where k = kanban0 and cs = "[cand_a, cand_b, cand_c]" and vars = "(''a'', ''tech'')"
            and e = env_update_rejected and err = "Error ''QuotaExceededError''"
            and k' = "snd (mutateAsync env_update_rejected (''a'', ''tech'') kanban0)"
            and ?e2.0 = env_add_rejected and ?vars2.0 = "(''a'', ''tech'')" and d = db0
            and ?err2.0 = "Error ''DataError''"
            and d' = "snd (list_mutationFn env_add_rejected (''a'', ''tech'') db0)"
            and ?e3.0 = env_update_rejected and msg = "''QuotaExceededError''"
            and ?vars3.0 = "(''b'', ''offer'')" and snapshot = "[cand_a, cand_b, cand_c]"
            and cur = "set_stage ''b'' ''offer'' [cand_a, cand_b, cand_c]" and ?k3.0 = kanban0]
       q ex_failed_commit ex_failed_list f1 f2 r
  show ?thesis by blast
qed


text \<open>
  Claim C10.  A commit through the Kanban path that succeeds writes the \<open>stage\<close> property
  of the stored candidate and nothing else: every other property of the record, among
  them \<open>updatedAt\<close> and \<open>lastUpdated\<close>, keeps its value, and every other record is
  unchanged.  A successful PATCH for the same change, in contrast, stores the
  current time as \<open>updatedAt\<close>.
\<close>

theorem kanban_commit_writes_only_stage:
  assumes "mutateAsync e (cid, t) k = (Inr data, k')"
      and "candidates (store k) cid = Some c"
  shows "(\<exists>c'. candidates (store k') cid = Some c'
               \<and> c' ''stage'' = Some (JStr t)
               \<and> (\<forall>f. f \<noteq> ''stage'' \<longrightarrow> c' f = c f)
               \<and> c' ''updatedAt'' = c ''updatedAt''
               \<and> c' ''lastUpdated'' = c ''lastUpdated'')
         \<and> (\<forall>j. j \<noteq> cid \<longrightarrow> candidates (store k') j = candidates (store k) j)
         \<and> (\<forall>d r d'. patch_candidate e cid (stage_body t) d = (r, d') \<and> status r = 200
              \<longrightarrow> (\<exists>p. candidates d' cid = Some p
                        \<and> p ''updatedAt'' = Some (JStr (isoNow e 0))))"
proof -
  from mutateAsync_succeeded [OF assms(1)] assms(2)
  have s: "candidates (store k') = (candidates (store k))(cid \<mapsto> c(''stage'' \<mapsto> JStr t))"
    by simp
  have p: "\<exists>p. candidates d' cid = Some p \<and> p ''updatedAt'' = Some (JStr (isoNow e 0))"
    if "patch_candidate e cid (stage_body t) d = (r, d')" and "status r = 200" for d r d'
  proof -
    from patch_effects [OF that(1)] that(2)
    obtain c parsed where b: "stage_body t = Json parsed" and c: "candidates d cid = Some c"
      and rw: "rows d' = map (\<lambda>x. if is_str (x ''id'') cid
                                  then x ++ (c ++ spread parsed)(''updatedAt'' \<mapsto> JStr (isoNow e 0))
                                  else x) (rows d)"
      by auto
    let ?u = "(c ++ spread parsed)(''updatedAt'' \<mapsto> JStr (isoNow e 0))"
    from b have "spread parsed ''id'' = None"
      by (auto simp: stage_body_def)
    with candidates_id [OF c] have "?u ''id'' = None \<or> ?u ''id'' = Some (JStr cid)"
      by (simp add: map_add_def)
    from find_rewritten [where ch = ?u and key = cid and j = cid and rs = "rows d", OF this] rw c
    have "candidates d' cid = Some (c ++ ?u)"
      by (simp add: candidates_def)
    then show ?thesis by simp
  qed
  from s have a: "\<exists>c'. candidates (store k') cid = Some c'
               \<and> c' ''stage'' = Some (JStr t)
               \<and> (\<forall>f. f \<noteq> ''stage'' \<longrightarrow> c' f = c f)
               \<and> c' ''updatedAt'' = c ''updatedAt''
               \<and> c' ''lastUpdated'' = c ''lastUpdated''"
    by simp
  from s have b: "\<forall>j. j \<noteq> cid \<longrightarrow> candidates (store k') j = candidates (store k) j"
    by simp
  show ?thesis
  proof (intro conjI)
    show "\<forall>d r d'. patch_candidate e cid (stage_body t) d = (r, d') \<and> status r = 200
              \<longrightarrow> (\<exists>p. candidates d' cid = Some p
                        \<and> p ''updatedAt'' = Some (JStr (isoNow e 0)))"
      using p by blast
  qed (rule a, rule b)
qed

theorem kanban_commit_writes_only_stage_witness:
  "\<not> isl (fst (mutateAsync env_ok (''a'', ''screen'') kanban0))
   \<and> candidates (store kanban0) ''a'' = Some cand_a
   \<and> (\<exists>c'. candidates (store (snd (mutateAsync env_ok (''a'', ''screen'') kanban0))) ''a'' = Some c'
         \<and> c' ''stage'' = Some (JStr ''screen'')
         \<and> (\<forall>f. f \<noteq> ''stage'' \<longrightarrow> c' f = cand_a f))
   \<and> candidates (store (snd (mutateAsync env_ok (''a'', ''screen'') kanban0))) ''b''
        = candidates (store kanban0) ''b''"
proof -
  have c: "candidates (store kanban0) ''a'' = Some cand_a"
    by (rule sample_candidates)
  from ex_commit have i: "\<not> isl (fst (mutateAsync env_ok (''a'', ''screen'') kanban0))"
    by (metis fst_conv sum.disc(2))
  note w = kanban_commit_writes_only_stage [OF ex_commit c]
  from w [THEN conjunct1]
  have x: "\<exists>c'. candidates (store (snd (mutateAsync env_ok (''a'', ''screen'') kanban0))) ''a'' = Some c'
         \<and> c' ''stage'' = Some (JStr ''screen'')
         \<and> (\<forall>f. f \<noteq> ''stage'' \<longrightarrow> c' f = cand_a f)"
    by blast
  have n: "''b'' \<noteq> ''a''"
    by simp
  from w [THEN conjunct2, THEN conjunct1]
  have "''b'' \<noteq> ''a'' \<longrightarrow>
          candidates (store (snd (mutateAsync env_ok (''a'', ''screen'') kanban0))) ''b''
            = candidates (store kanban0) ''b''"
    by (rule spec)
  with n
  have y: "candidates (store (snd (mutateAsync env_ok (''a'', ''screen'') kanban0))) ''b''
           = candidates (store kanban0) ''b''"
    by (rule rev_mp)
  from c i x y show ?thesis
    by (intro conjI)
qed


section \<open>Failures\<close>

text \<open>
  Claim C2, as stated, fails.  The store rejects the candidate write of a PATCH that moves
  \<open>cand_a\<close> from \<open>applied\<close> to \<open>screen\<close>: the call answers 500, the stored stage is still
  \<open>applied\<close>, and the \<open>stage_change\<close> event appended just before the write is in the
  timeline.
\<close>

theorem patch_partial_write:
  "the (candidates db0 ''a'') ''stage'' = Some (JStr ''applied'')
   \<and> status (fst (patch_candidate env_update_rejected ''a'' (stage_body ''screen'') db0)) = 500
   \<and> length (timeline (snd (patch_candidate env_update_rejected ''a'' (stage_body ''screen'') db0)))
        = Suc (length (timeline db0))
   \<and> hd (timeline (snd (patch_candidate env_update_rejected ''a'' (stage_body ''screen'') db0))) ''type''
        = Some (JStr ''stage_change'')
   \<and> hd (timeline (snd (patch_candidate env_update_rejected ''a'' (stage_body ''screen'') db0))) ''candidateId''
        = Some (JStr ''a'')
   \<and> the (candidates (snd (patch_candidate env_update_rejected ''a'' (stage_body ''screen'') db0)) ''a'') ''stage''
        = Some (JStr ''applied'')"
proof -
  have s: "cand_a ''stage'' = Some (JStr ''applied'')"
    by (simp add: cand_a_def)
  have t: "timeline db0 = []"
    by (simp add: db0_def)
  have c: "candidates (db0\<lparr>calls := calls db0 @ [CandidatesGet ''a'', TimelineAdd, CandidatesUpdate ''a''],
            timeline := timeline db0 @ [patch_event env_update_rejected ''a'' cand_a
                                          (spread (JObj [(''stage'', JStr ''screen'')]))]\<rparr>) ''a''
           = Some cand_a"
    by (simp add: sample_candidates)
  show ?thesis
    unfolding ex_failed_patch_state
    by (simp add: c sample_candidates s t) (simp add: patch_event_def)
qed

text \<open>
  Claim C2, amended.  A PATCH that fails never changes a stored candidate.  It leaves the
  timeline unchanged as well, except when the failure is the rejection of the final
  candidate write after a stage change: then the one event appended before it stays.  A
  failing \<open>mutationFn\<close> of the list view appends no event, and changes no stored candidate
  when the failure is the rejection of its stage write.
\<close>

theorem failed_write_effects:
  "(patch_candidate e cid request d = (r, d') \<and> status r \<noteq> 200 \<longrightarrow>
      candidates d' = candidates d
      \<and> (rejects e OpUpdate = None \<longrightarrow> timeline d' = timeline d)
      \<and> (timeline d' = timeline d
          \<or> (\<exists>c parsed. request = Json parsed \<and> candidates d cid = Some c
                \<and> stage_changed (spread parsed) c
                \<and> timeline d' = timeline d @ [patch_event e cid c (spread parsed)])))
   \<and> (list_mutationFn e2 vars d2 = (Inl err, d2') \<longrightarrow>
        timeline d2' = timeline d2
        \<and> (rejects e2 OpUpdate \<noteq> None \<longrightarrow> candidates d2' = candidates d2))"
proof -
  have a: "candidates d' = candidates d
      \<and> (rejects e OpUpdate = None \<longrightarrow> timeline d' = timeline d)
      \<and> (timeline d' = timeline d
          \<or> (\<exists>c parsed. request = Json parsed \<and> candidates d cid = Some c
                \<and> stage_changed (spread parsed) c
                \<and> timeline d' = timeline d @ [patch_event e cid c (spread parsed)]))"
    if "patch_candidate e cid request d = (r, d')" and "status r \<noteq> 200"
  proof -
    from patch_effects [OF that(1)] that(2)
    have 1: "rows d' = rows d"
      and 2: "timeline d' = timeline d
          \<or> (\<exists>c parsed msg. request = Json parsed \<and> candidates d cid = Some c
                \<and> stage_changed (spread parsed) c
                \<and> rejects e OpUpdate = Some msg
                \<and> timeline d' = timeline d @ [patch_event e cid c (spread parsed)])"
      by auto
    from 1 have "candidates d' = candidates d"
      by (rule candidates_rows_same)
    with 2 show ?thesis by auto
  qed
  have b: "timeline d2' = timeline d2
        \<and> (rejects e2 OpUpdate \<noteq> None \<longrightarrow> candidates d2' = candidates d2)"
    if "list_mutationFn e2 vars d2 = (Inl err, d2')"
    using list_mutationFn_failed [OF that] by simp
  from a b show ?thesis by blast
qed

theorem failed_write_effects_witness:
  "status (fst (patch_candidate env_update_rejected ''a'' (stage_body ''screen'') db0)) \<noteq> 200
   \<and> candidates (snd (patch_candidate env_update_rejected ''a'' (stage_body ''screen'') db0))
        = candidates db0
   \<and> isl (fst (list_mutationFn env_add_rejected (''a'', ''tech'') db0))
   \<and> timeline (snd (list_mutationFn env_add_rejected (''a'', ''tech'') db0)) = timeline db0"
proof -
  have s: "status (handleError (Error ''QuotaExceededError'')) \<noteq> 200"
    by simp
  from ex_failed_patch
  have s': "status (fst (patch_candidate env_update_rejected ''a'' (stage_body ''screen'') db0)) \<noteq> 200"
    by (metis fst_conv s)
  from ex_failed_list
  have i: "isl (fst (list_mutationFn env_add_rejected (''a'', ''tech'') db0))"
    by (metis fst_conv sum.disc(1))
  from failed_write_effects
         [of env_update_rejected "''a''" "stage_body ''screen''" db0
             "handleError (Error ''QuotaExceededError'')"
             "snd (patch_candidate env_update_rejected ''a'' (stage_body ''screen'') db0)"
             env_add_rejected "(''a'', ''tech'')" db0 "Error ''DataError''"
             "snd (list_mutationFn env_add_rejected (''a'', ''tech'') db0)"]
       ex_failed_patch ex_failed_list s
  have "candidates (snd (patch_candidate env_update_rejected ''a'' (stage_body ''screen'') db0))
          = candidates db0"
    and "timeline (snd (list_mutationFn env_add_rejected (''a'', ''tech'') db0)) = timeline db0"
    by blast+
  with s' i show ?thesis by (intro conjI)
qed


section \<open>The grouping view\<close>

text \<open>
  Claim C5, as stated, fails.  A candidate whose stage is \<open>interview\<close>, which is not a
  stage of the registry, appears in no column: the union of the groups is empty while the
  input holds one candidate.
\<close>

theorem grouping_drops_unregistered_stage:
  "cand_x ''stage'' = Some (JStr ''interview'')
   \<and> concat (columns [cand_x]) = []
   \<and> mset (concat (columns [cand_x])) \<noteq> mset [cand_x]"
  by (simp add: columns_eq stage_registry_def is_str_def cand_x_def)

text \<open>
  Claim C5, amended.  The grouping has exactly the registry stages as its keys, also when
  no candidate is at a stage; the group of a stage holds, in input order, the candidates
  whose stage is that value; and the union of the groups holds each candidate whose stage
  is a registry stage exactly once, and no other candidate.
\<close>

theorem grouping_partitions_registered:
  "dom (candidatesByStage cs) = set stage_registry
   \<and> (\<forall>s \<in> set stage_registry.
         candidatesByStage cs s = Some (filter (\<lambda>c. is_str (c ''stage'') s) cs))
   \<and> mset (concat (columns cs))
        = mset (filter (\<lambda>c. list_ex (\<lambda>s. is_str (c ''stage'') s) stage_registry) cs)"
proof -
  have "distinct stage_registry"
    by (simp add: stage_registry_def)
  from partition_by_key [OF this, of "\<lambda>c. c ''stage''" cs]
  have "mset (concat (columns cs))
        = mset (filter (\<lambda>c. list_ex (\<lambda>s. is_str (c ''stage'') s) stage_registry) cs)"
    by (simp add: columns_eq is_str_iff)
  with candidatesByStage_dom [of cs] candidatesByStage_key [of _ cs] show ?thesis
    by blast
qed

theorem grouping_partitions_registered_witness:
  "''applied'' \<in> set stage_registry
   \<and> candidatesByStage [cand_a, cand_x, cand_b, cand_c] ''applied'' = Some [cand_a, cand_c]
   \<and> ''tech'' \<in> set stage_registry
   \<and> candidatesByStage [cand_a, cand_x, cand_b, cand_c] ''tech'' = Some [cand_b]
   \<and> dom (candidatesByStage [cand_a, cand_x, cand_b, cand_c]) = set stage_registry"
proof -
  have r: "''applied'' \<in> set stage_registry" "''tech'' \<in> set stage_registry"
    by (simp_all add: stage_registry_def)
  have e: "is_str (cand_a ''stage'') ''applied''" "is_str (cand_c ''stage'') ''applied''"
          "\<not> is_str (cand_b ''stage'') ''applied''" "\<not> is_str (cand_x ''stage'') ''applied''"
          "\<not> is_str (cand_a ''stage'') ''tech''" "\<not> is_str (cand_c ''stage'') ''tech''"
          "is_str (cand_b ''stage'') ''tech''" "\<not> is_str (cand_x ''stage'') ''tech''"
    by (simp_all add: is_str_def cand_a_def cand_b_def cand_c_def cand_x_def)
  from grouping_partitions_registered [of "[cand_a, cand_x, cand_b, cand_c]"] r
  have "candidatesByStage [cand_a, cand_x, cand_b, cand_c] ''applied''
          = Some (filter (\<lambda>c. is_str (c ''stage'') ''applied'') [cand_a, cand_x, cand_b, cand_c])"
   and "candidatesByStage [cand_a, cand_x, cand_b, cand_c] ''tech''
          = Some (filter (\<lambda>c. is_str (c ''stage'') ''tech'') [cand_a, cand_x, cand_b, cand_c])"
   and "dom (candidatesByStage [cand_a, cand_x, cand_b, cand_c]) = set stage_registry"
    by blast+
  with r e show ?thesis by simp
qed


section \<open>A drop on a card of the same column\<close>

text \<open>
  Claim C4, at a failing input.  In the list view's board, \<open>cand_a\<close> and \<open>cand_c\<close> are
  both at \<open>applied\<close>, and the card of \<open>cand_a\<close> is dragged over the card of \<open>cand_c\<close>.
  A card carries no \<open>stage\<close> in its data, so the board takes the card's id \<open>c\<close> for the
  target stage, finds it different from \<open>applied\<close>, and calls \<open>onCandidateMove\<close>;
  \<open>handleStageDrop\<close> then issues the store calls and the stored stage of \<open>cand_a\<close>
  becomes \<open>c\<close>.
\<close>

theorem list_board_card_drop_writes:
  "cand_a ''stage'' = Some (JStr ''applied'')
   \<and> cand_c ''stage'' = Some (JStr ''applied'')
   \<and> over_id card_c = ''c''
   \<and> board_handleDragOver ''a'' (Some card_c) [cand_a, cand_b, cand_c] = Some (''a'', ''c'')
   \<and> calls (lstore listview0) = []
   \<and> calls (lstore (list_board_drag_over env_ok ''a'' (Some card_c) [cand_a, cand_b, cand_c] listview0))
        = [CandidatesUpdate ''a'', TimelineAdd]
   \<and> the (candidates (lstore (list_board_drag_over env_ok ''a'' (Some card_c)
                                  [cand_a, cand_b, cand_c] listview0)) ''a'') ''stage''
        = Some (JStr ''c'')"
proof -
  have m: "board_handleDragOver ''a'' (Some card_c) [cand_a, cand_b, cand_c] = Some (''a'', ''c'')"
    by (simp add: board_handleDragOver_def card_c_def over_stage_id_def board_candidatesByStage_def
                  board_STAGES_def is_str_def cand_a_def cand_b_def cand_c_def Let_def)
  have "list_board_drag_over env_ok ''a'' (Some card_c) [cand_a, cand_b, cand_c] listview0
          = handleStageDrop env_ok ''a'' ''c'' listview0"
    by (simp add: list_board_drag_over_def m)
  then show ?thesis
    by (simp add: m)
       (simp add: handleStageDrop_def listview0_def db0_def is_str_def cand_a_def cand_b_def
                  cand_c_def card_c_def list_mutationFn_def db_candidates_update_def
                  db_timeline_add_def env_ok_def Let_def candidates_def has_key_def
                  list_event_def)
qed






section \<open>Two stage changes in flight\<close>





end
